theory Spec2Isabelle
  imports Complex_Main
begin

section \<open>Tensor elements\<close>

text \<open>
  A tensor element is a float32 number: a finite value, an infinity or NaN. A finite value is
  kept as the real number it stands for, and every arithmetic operation rounds its exact
  result to float32 as IEEE-754 prescribes (to the nearest value, ties to even): a result
  too large in magnitude becomes an infinity and a small one is rounded on the subnormal
  grid. The sign of zero is not modelled.
\<close>

datatype val = Fin real | PInf | NInf | NaN

text \<open>The nearest integer, ties to the even one.\<close>

definition rne :: "real \<Rightarrow> int" where
  "rne x =
     (let n = \<lfloor>x\<rfloor>; f = x - of_int n
      in if f < 1 / 2 then n else if 1 / 2 < f then n + 1 else if even n then n else n + 1)"

text \<open>
  The exponent of the binade of a real number: \<open>2\<^sup>e \<le> |x| < 2\<^sup>e\<^sup>+\<^sup>1\<close>, and the
  exponent \<open>-126\<close> of the subnormal numbers below.
\<close>

definition expo :: "real \<Rightarrow> int" where
  "expo x = (if \<bar>x\<bar> < 2 powi (- 126) then - 126 else \<lfloor>log 2 \<bar>x\<bar>\<rfloor>)"

text \<open>The distance between two float32 values in the binade of \<open>x\<close>: 24 bits of precision.\<close>

definition ulp :: "real \<Rightarrow> real" where
  "ulp x = 2 powi (expo x - 23)"

text \<open>The multiple of \<open>ulp x\<close> nearest to \<open>x\<close>, before the test for overflow.\<close>

definition nearest32 :: "real \<Rightarrow> real" where
  "nearest32 x = of_int (rne (x / ulp x)) * ulp x"

text \<open>The float32 value of a real result: an infinity from \<open>2\<^sup>1\<^sup>2\<^sup>8\<close> on.\<close>

definition round32 :: "real \<Rightarrow> val" where
  "round32 x =
     (let y = nearest32 x
      in if 2 ^ 128 \<le> \<bar>y\<bar> then (if 0 < x then PInf else NInf) else Fin y)"

fun is_finite :: "val \<Rightarrow> bool" where
  "is_finite (Fin x) = True"
| "is_finite v = False"

fun vadd :: "val \<Rightarrow> val \<Rightarrow> val" where
  "vadd (Fin a) (Fin b) = round32 (a + b)"
| "vadd NaN v = NaN"
| "vadd v NaN = NaN"
| "vadd PInf NInf = NaN"
| "vadd NInf PInf = NaN"
| "vadd PInf v = PInf"
| "vadd v PInf = PInf"
| "vadd NInf v = NInf"
| "vadd v NInf = NInf"

fun vneg :: "val \<Rightarrow> val" where
  "vneg (Fin a) = Fin (- a)"
| "vneg PInf = NInf"
| "vneg NInf = PInf"
| "vneg NaN = NaN"

definition vsub :: "val \<Rightarrow> val \<Rightarrow> val" where
  "vsub a b = vadd a (vneg b)"

fun vabs :: "val \<Rightarrow> val" where
  "vabs (Fin a) = Fin \<bar>a\<bar>"
| "vabs PInf = PInf"
| "vabs NInf = PInf"
| "vabs NaN = NaN"

text \<open>The sign of a value that is not NaN: \<open>-1\<close>, \<open>0\<close> or \<open>1\<close>.\<close>

fun vsgn :: "val \<Rightarrow> real" where
  "vsgn (Fin a) = sgn a"
| "vsgn PInf = 1"
| "vsgn NInf = - 1"
| "vsgn NaN = 0"

definition inf_of_sign :: "real \<Rightarrow> val" where
  "inf_of_sign s = (if s = 0 then NaN else if 0 < s then PInf else NInf)"

fun vmul :: "val \<Rightarrow> val \<Rightarrow> val" where
  "vmul (Fin a) (Fin b) = round32 (a * b)"
| "vmul NaN v = NaN"
| "vmul v NaN = NaN"
| "vmul a b = inf_of_sign (vsgn a * vsgn b)"

text \<open>\<open>x ** 2\<close>\<close>

definition vpow2 :: "val \<Rightarrow> val" where
  "vpow2 x = vmul x x"

fun vdiv :: "val \<Rightarrow> val \<Rightarrow> val" where
  "vdiv (Fin a) (Fin b) = (if b = 0 then inf_of_sign (sgn a) else round32 (a / b))"
| "vdiv NaN v = NaN"
| "vdiv v NaN = NaN"
| "vdiv (Fin a) v = Fin 0"
| "vdiv a (Fin b) = inf_of_sign (vsgn a * (if b < 0 then - 1 else 1))"
| "vdiv a b = NaN"

text \<open>
  \<open>log 0\<close> is minus infinity and the logarithm of a negative number is NaN. The logarithm
  and the exponential are taken as correctly rounded.
\<close>

fun vlog :: "val \<Rightarrow> val" where
  "vlog (Fin a) = (if 0 < a then round32 (ln a) else if a = 0 then NInf else NaN)"
| "vlog PInf = PInf"
| "vlog NInf = NaN"
| "vlog NaN = NaN"

fun vexp :: "val \<Rightarrow> val" where
  "vexp (Fin a) = round32 (exp a)"
| "vexp PInf = PInf"
| "vexp NInf = Fin 0"
| "vexp NaN = NaN"

text \<open>The maximum propagates NaN, as \<open>torch.max\<close> does.\<close>

fun vmax :: "val \<Rightarrow> val \<Rightarrow> val" where
  "vmax (Fin a) (Fin b) = Fin (max a b)"
| "vmax NaN v = NaN"
| "vmax v NaN = NaN"
| "vmax PInf v = PInf"
| "vmax v PInf = PInf"
| "vmax NInf v = v"
| "vmax v NInf = v"

text \<open>
  The values of float32: the infinities, NaN, and the real numbers that rounding leaves
  unchanged.
\<close>

fun is_float32 :: "val \<Rightarrow> bool" where
  "is_float32 (Fin x) = (round32 x = Fin x)"
| "is_float32 v = True"

text \<open>A value that is neither a negative number nor minus infinity.\<close>

fun not_negative :: "val \<Rightarrow> bool" where
  "not_negative (Fin x) = (0 \<le> x)"
| "not_negative NInf = False"
| "not_negative v = True"

text \<open>The comparisons \<open>==\<close> and \<open>\<le>\<close> of floats: NaN compares false with everything.\<close>

fun veq :: "val \<Rightarrow> val \<Rightarrow> bool" where
  "veq NaN v = False"
| "veq v NaN = False"
| "veq a b = (a = b)"

fun vle :: "val \<Rightarrow> val \<Rightarrow> bool" where
  "vle (Fin a) (Fin b) = (a \<le> b)"
| "vle NaN v = False"
| "vle v NaN = False"
| "vle NInf v = True"
| "vle v PInf = True"
| "vle a b = False"

text \<open>
  A sum of floats: the summands are added one after the other, from left to right,
  starting from 0, and every addition rounds.
\<close>

definition vsum :: "val list \<Rightarrow> val" where
  "vsum xs = foldl vadd (Fin 0) xs"

text \<open>
  \<open>torch.isclose\<close> with its default tolerances \<open>rtol = 1e-05\<close> and \<open>atol = 1e-08\<close>, which
  become float32 values: two values are close when they are equal, or when the error
  \<open>|a - b|\<close> is finite and at most \<open>atol + |rtol * b|\<close>, each operation in float32.
\<close>

definition rtol32 :: val where
  "rtol32 = round32 (1 / 10 ^ 5)"

definition atol32 :: val where
  "atol32 = round32 (1 / 10 ^ 8)"

definition isclose :: "val \<Rightarrow> val \<Rightarrow> bool" where
  "isclose a b =
     (veq a b \<or>
      (let allowed_error = vadd atol32 (vabs (vmul rtol32 b));
           actual_error = vabs (vsub a b)
       in is_finite actual_error \<and> vle actual_error allowed_error))"

text \<open>Maximum of a non-empty row, from left to right.\<close>

fun vmax_list :: "val list \<Rightarrow> val" where
  "vmax_list [] = NInf"
| "vmax_list [x] = x"
| "vmax_list (x # xs) = vmax x (vmax_list xs)"

text \<open>
  \<open>torch.mean\<close> of the elements: their sum over their number, which is rounded to
  float32; NaN when there is none.
\<close>

definition vmean :: "val list \<Rightarrow> val" where
  "vmean xs = vdiv (vsum xs) (round32 (real (length xs)))"

section \<open>Tensors\<close>

text \<open>
  A tensor is its shape and its elements, read by index (one index per dimension). Only
  the elements at the indices of the shape are ever read.
\<close>

record tensor =
  shape :: "nat list"
  elem :: "nat list \<Rightarrow> val"

datatype error =
    AssertionError string "nat list"
  | ValueError
  | IndexError
  | RuntimeError
  | NameError

type_synonym 'a result = "error + 'a"

definition rbind :: "'a result \<Rightarrow> ('a \<Rightarrow> 'b result) \<Rightarrow> 'b result" where
  "rbind r f = (case r of Inl e \<Rightarrow> Inl e | Inr x \<Rightarrow> f x)"

text \<open>All indices of a shape, in row-major order.\<close>

fun indices :: "nat list \<Rightarrow> nat list list" where
  "indices [] = [[]]"
| "indices (n # s) = concat (map (\<lambda>i. map ((#) i) (indices s)) [0..<n])"

definition elements :: "tensor \<Rightarrow> val list" where
  "elements t = map (elem t) (indices (shape t))"

text \<open>\<open>torch.isfinite(t).all()\<close>\<close>

definition all_finite :: "tensor \<Rightarrow> bool" where
  "all_finite t = list_all is_finite (elements t)"

text \<open>\<open>t.new_ones(s)\<close>\<close>

definition new_ones :: "nat list \<Rightarrow> tensor" where
  "new_ones s = \<lparr>shape = s, elem = (\<lambda>idx. Fin 1)\<rparr>"

text \<open>\<open>torch.mean(t)\<close>, a scalar.\<close>

definition tmean :: "tensor \<Rightarrow> val" where
  "tmean t = vmean (elements t)"

subsection \<open>Broadcasting\<close>

text \<open>
  Two shapes are aligned at their last dimension; two dimensions are compatible when they
  are equal or one of them is 1. Incompatible shapes raise a RuntimeError.
\<close>

definition bdim :: "nat \<Rightarrow> nat \<Rightarrow> nat option" where
  "bdim a b = (if a = b then Some a else if a = 1 then Some b else if b = 1 then Some a else None)"

fun bshape_rev :: "nat list \<Rightarrow> nat list \<Rightarrow> nat list option" where
  "bshape_rev [] ys = Some ys"
| "bshape_rev xs [] = Some xs"
| "bshape_rev (x # xs) (y # ys) =
     (case bdim x y of None \<Rightarrow> None
      | Some d \<Rightarrow> (case bshape_rev xs ys of None \<Rightarrow> None | Some s \<Rightarrow> Some (d # s)))"

definition broadcast_shapes :: "nat list \<Rightarrow> nat list \<Rightarrow> nat list option" where
  "broadcast_shapes s1 s2 = map_option rev (bshape_rev (rev s1) (rev s2))"

text \<open>
  The index at which an operand of shape \<open>s\<close> is read for the index \<open>idx\<close> of the result:
  the leading dimensions the operand lacks are dropped, and a dimension of size 1 is read
  at 0.
\<close>

definition bindex :: "nat list \<Rightarrow> nat list \<Rightarrow> nat list" where
  "bindex s idx = map2 (\<lambda>d i. if d = 1 then 0 else i) s (drop (length idx - length s) idx)"

definition tbinop :: "(val \<Rightarrow> val \<Rightarrow> val) \<Rightarrow> tensor \<Rightarrow> tensor \<Rightarrow> tensor result" where
  "tbinop f a b =
     (case broadcast_shapes (shape a) (shape b) of
        None \<Rightarrow> Inl RuntimeError
      | Some s \<Rightarrow> Inr \<lparr>shape = s,
                       elem = (\<lambda>idx. f (elem a (bindex (shape a) idx)) (elem b (bindex (shape b) idx)))\<rparr>)"

definition tsub :: "tensor \<Rightarrow> tensor \<Rightarrow> tensor result" where
  "tsub = tbinop vsub"

definition tmul :: "tensor \<Rightarrow> tensor \<Rightarrow> tensor result" where
  "tmul = tbinop vmul"

text \<open>\<open>torch.allclose(a, b)\<close>\<close>

definition allclose :: "tensor \<Rightarrow> tensor \<Rightarrow> bool result" where
  "allclose a b =
     (case broadcast_shapes (shape a) (shape b) of
        None \<Rightarrow> Inl RuntimeError
      | Some s \<Rightarrow> Inr (list_all (\<lambda>idx. isclose (elem a (bindex (shape a) idx))
                                               (elem b (bindex (shape b) idx))) (indices s)))"

subsection \<open>Elementwise operations\<close>

definition tmap :: "(val \<Rightarrow> val) \<Rightarrow> tensor \<Rightarrow> tensor" where
  "tmap f t = \<lparr>shape = shape t, elem = (\<lambda>idx. f (elem t idx))\<rparr>"

definition tlog :: "tensor \<Rightarrow> tensor" where
  "tlog = tmap vlog"

definition texp :: "tensor \<Rightarrow> tensor" where
  "texp = tmap vexp"

definition tneg :: "tensor \<Rightarrow> tensor" where
  "tneg = tmap vneg"

definition tpow2 :: "tensor \<Rightarrow> tensor" where
  "tpow2 = tmap vpow2"

text \<open>\<open>c * t\<close> for a Python float \<open>c\<close>\<close>

definition tscale :: "real \<Rightarrow> tensor \<Rightarrow> tensor" where
  "tscale c = tmap (vmul (Fin c))"

subsection \<open>Reshaping and reductions\<close>

text \<open>A dimension argument may be negative: it then counts from the last dimension.\<close>

definition norm_dim :: "int \<Rightarrow> nat \<Rightarrow> nat option" where
  "norm_dim d r =
     (let d' = (if d < 0 then d + int r else d)
      in if 0 \<le> d' \<and> d' < int r then Some (nat d') else None)"

text \<open>\<open>torch.unsqueeze(t, d)\<close> for \<open>0 \<le> d\<close>: a new dimension of size 1 at position \<open>d\<close>.\<close>

definition unsqueeze :: "tensor \<Rightarrow> nat \<Rightarrow> tensor result" where
  "unsqueeze t d =
     (if length (shape t) < d then Inl IndexError
      else Inr \<lparr>shape = take d (shape t) @ [1] @ drop d (shape t),
                elem = (\<lambda>idx. elem t (take d idx @ drop (Suc d) idx))\<rparr>)"

text \<open>\<open>t[:, None, :, None]\<close>: two slices need two dimensions.\<close>

definition index_slice_none_slice_none :: "tensor \<Rightarrow> tensor result" where
  "index_slice_none_slice_none t =
     (case shape t of
        a # b # rest \<Rightarrow>
          Inr \<lparr>shape = a # 1 # b # 1 # rest,
               elem = (\<lambda>idx. elem t (idx ! 0 # idx ! 2 # drop 4 idx))\<rparr>
      | _ \<Rightarrow> Inl IndexError)"

text \<open>\<open>torch.sum(t, dim=d, keepdim=k)\<close>\<close>

definition tsum :: "tensor \<Rightarrow> int \<Rightarrow> bool \<Rightarrow> tensor result" where
  "tsum t d keepdim =
     (case norm_dim d (length (shape t)) of
        None \<Rightarrow> Inl IndexError
      | Some k \<Rightarrow>
          let n = shape t ! k in
          if keepdim then
            Inr \<lparr>shape = (shape t)[k := 1],
                 elem = (\<lambda>idx. vsum (map (\<lambda>j. elem t (idx[k := j])) [0..<n]))\<rparr>
          else
            Inr \<lparr>shape = take k (shape t) @ drop (Suc k) (shape t),
                 elem = (\<lambda>idx. vsum (map (\<lambda>j. elem t (take k idx @ [j] @ drop k idx)) [0..<n]))\<rparr>)"

text \<open>
  \<open>t.max(dim=d, keepdim=True)\<close>, the values only. A dimension of size 0 cannot be
  reduced: torch raises an IndexError.
\<close>

definition tmax_keepdim :: "tensor \<Rightarrow> int \<Rightarrow> tensor result" where
  "tmax_keepdim t d =
     (case norm_dim d (length (shape t)) of
        None \<Rightarrow> Inl IndexError
      | Some k \<Rightarrow>
          let n = shape t ! k in
          if n = 0 then Inl IndexError
          else Inr \<lparr>shape = (shape t)[k := 1],
                    elem = (\<lambda>idx. vmax_list (map (\<lambda>j. elem t (idx[k := j])) [0..<n]))\<rparr>)"

section \<open>The multi-modal negative log-likelihood\<close>

text \<open>
  The raw error of each mode of each sample: the statements of
  \<open>pytorch_neg_multi_log_likelihood_batch\<close> from the broadcast of \<open>gt\<close> and \<open>avails\<close> to the
  sum over the coordinates, and the sum over time that the next statement takes of it.
\<close>

definition raw_error :: "tensor \<Rightarrow> tensor \<Rightarrow> tensor \<Rightarrow> tensor result" where
  "raw_error gt pred avails =
     rbind (unsqueeze gt 1) (\<lambda>gt.
     rbind (index_slice_none_slice_none avails) (\<lambda>avails.
     rbind (tsub gt pred) (\<lambda>diff.
     rbind (tmul diff avails) (\<lambda>masked.
     rbind (tsum (tpow2 masked) (- 1) False) (\<lambda>error.
     tsum error (- 1) False)))))"

text \<open>The statements after the assertions.\<close>

definition nll_reduce :: "tensor \<Rightarrow> tensor \<Rightarrow> tensor \<Rightarrow> tensor \<Rightarrow> val result" where
  "nll_reduce gt pred confidences avails =
     rbind (raw_error gt pred avails) (\<lambda>raw.
     rbind (tsub (tlog confidences) (tscale (1 / 2) raw)) (\<lambda>error.
     rbind (tmax_keepdim error 1) (\<lambda>max_value.
     rbind (tsub error max_value) (\<lambda>shifted.
     rbind (tsum (texp shifted) (- 1) True) (\<lambda>total.
     rbind (tsub (tneg (tlog total)) max_value) (\<lambda>error.
     Inr (tmean error)))))))"

definition pytorch_neg_multi_log_likelihood_batch ::
  "tensor \<Rightarrow> tensor \<Rightarrow> tensor \<Rightarrow> tensor \<Rightarrow> val result" where
  "pytorch_neg_multi_log_likelihood_batch gt pred confidences avails =
     (if length (shape pred) \<noteq> 4
      then Inl (AssertionError ''expected 3D (MxTxC) array for pred'' (shape pred))
      else
        let batch_size = shape pred ! 0; num_modes = shape pred ! 1;
            future_len = shape pred ! 2; num_coords = shape pred ! 3
        in
        if shape gt \<noteq> [batch_size, future_len, num_coords]
        then Inl (AssertionError ''expected 2D (Time x Coords) array for gt'' (shape gt))
        else if shape confidences \<noteq> [batch_size, num_modes]
        then Inl (AssertionError ''expected 1D (Modes) array for gt'' (shape confidences))
        else
          rbind (tsum confidences 1 False) (\<lambda>row_sums.
          rbind (allclose row_sums (new_ones [batch_size])) (\<lambda>close.
            if \<not> close
            then Inl (AssertionError ''confidences should sum to 1'' [])
            else if shape avails \<noteq> [batch_size, future_len]
            then Inl (AssertionError ''expected 1D (Time) array for gt'' (shape avails))
            else if \<not> all_finite pred
            then Inl (AssertionError ''invalid value found in pred'' [])
            else if \<not> all_finite gt
            then Inl (AssertionError ''invalid value found in gt'' [])
            else if \<not> all_finite confidences
            then Inl (AssertionError ''invalid value found in confidences'' [])
            else if \<not> all_finite avails
            then Inl (AssertionError ''invalid value found in avails'' [])
            else nll_reduce gt pred confidences avails)))"

text \<open>
  The single-mode loss. Unpacking \<open>pred.shape\<close> into three names raises a ValueError
  for a tensor of another rank.
\<close>

definition pytorch_neg_multi_log_likelihood_single ::
  "tensor \<Rightarrow> tensor \<Rightarrow> tensor \<Rightarrow> val result" where
  "pytorch_neg_multi_log_likelihood_single gt pred avails =
     (if length (shape pred) \<noteq> 3 then Inl ValueError
      else
        let batch_size = shape pred ! 0;
            confidences = new_ones [batch_size, 1]
        in rbind (unsqueeze pred 1) (\<lambda>pred1.
             pytorch_neg_multi_log_likelihood_batch gt pred1 confidences avails))"

section \<open>Closed forms of the loss\<close>

text \<open>
  The quantities the statements below speak about, written index by index for a
  prediction of shape \<open>(B, M, T, C)\<close>. The raw error of mode \<open>m\<close> of sample \<open>b\<close>:
\<close>

definition mode_error :: "tensor \<Rightarrow> tensor \<Rightarrow> tensor \<Rightarrow> nat \<Rightarrow> nat \<Rightarrow> nat \<Rightarrow> nat \<Rightarrow> val" where
  "mode_error gt pred avails T C b m =
     vsum (map (\<lambda>t. vsum (map (\<lambda>c.
        vpow2 (vmul (vsub (elem gt [b, t, c]) (elem pred [b, m, t, c])) (elem avails [b, t])))
          [0..<C])) [0..<T])"

text \<open>The log-score of a mode: \<open>log(confidence) - 0.5 * raw_error\<close>.\<close>

definition mode_score ::
  "tensor \<Rightarrow> tensor \<Rightarrow> tensor \<Rightarrow> tensor \<Rightarrow> nat \<Rightarrow> nat \<Rightarrow> nat \<Rightarrow> nat \<Rightarrow> val" where
  "mode_score gt pred confidences avails T C b m =
     vsub (vlog (elem confidences [b, m])) (vmul (Fin (1 / 2)) (mode_error gt pred avails T C b m))"

text \<open>The negated log-sum-exp of the scores of one sample, shifted by their maximum.\<close>

definition neg_logsumexp :: "val list \<Rightarrow> val" where
  "neg_logsumexp xs =
     vsub (vneg (vlog (vsum (map (\<lambda>x. vexp (vsub x (vmax_list xs))) xs)))) (vmax_list xs)"

definition sample_loss ::
  "tensor \<Rightarrow> tensor \<Rightarrow> tensor \<Rightarrow> tensor \<Rightarrow> nat \<Rightarrow> nat \<Rightarrow> nat \<Rightarrow> nat \<Rightarrow> val" where
  "sample_loss gt pred confidences avails M T C b =
     neg_logsumexp (map (mode_score gt pred confidences avails T C b) [0..<M])"

section \<open>Valid inputs\<close>

text \<open>
  The shapes the loss requires: \<open>pred\<close> has four dimensions \<open>(B, M, T, C)\<close>, and then
  \<open>gt\<close> is \<open>(B, T, C)\<close>, \<open>confidences\<close> is \<open>(B, M)\<close> and \<open>avails\<close> is \<open>(B, T)\<close>.
\<close>

definition shapes_ok :: "tensor \<Rightarrow> tensor \<Rightarrow> tensor \<Rightarrow> tensor \<Rightarrow> bool" where
  "shapes_ok gt pred confidences avails =
     (case shape pred of
        [B, M, T, C] \<Rightarrow>
          shape gt = [B, T, C] \<and> shape confidences = [B, M] \<and> shape avails = [B, T]
      | _ \<Rightarrow> False)"

text \<open>Every row of a \<open>(B, M)\<close> tensor sums to 1, within the tolerance of \<open>torch.allclose\<close>.\<close>

definition rows_sum_to_one :: "tensor \<Rightarrow> bool" where
  "rows_sum_to_one confidences =
     list_all (\<lambda>b. isclose (vsum (map (\<lambda>m. elem confidences [b, m]) [0..<shape confidences ! 1]))
                 (Fin 1))
       [0..<shape confidences ! 0]"

definition inputs_valid :: "tensor \<Rightarrow> tensor \<Rightarrow> tensor \<Rightarrow> tensor \<Rightarrow> bool" where
  "inputs_valid gt pred confidences avails =
     (shapes_ok gt pred confidences avails \<and> rows_sum_to_one confidences \<and>
      all_finite pred \<and> all_finite gt \<and> all_finite confidences \<and> all_finite avails)"

section \<open>The model and its decoder\<close>

text \<open>
  \<open>nn.Linear\<close>: its sizes, its weight (read at an output and an input index) and its bias.
\<close>

record linear =
  in_features :: nat
  out_features :: nat
  weight :: "nat \<Rightarrow> nat \<Rightarrow> val"
  bias :: "nat \<Rightarrow> val"

text \<open>
  The layer applied to a tensor: \<open>x W\<^sup>T + b\<close> on the last dimension, which must have
  \<open>in_features\<close> elements.
\<close>

definition linear_forward :: "linear \<Rightarrow> tensor \<Rightarrow> tensor result" where
  "linear_forward l x =
     (if shape x = [] \<or> last (shape x) \<noteq> in_features l then Inl RuntimeError
      else Inr \<lparr>shape = butlast (shape x) @ [out_features l],
                elem = (\<lambda>idx. vadd (vsum (map (\<lambda>i.
                                      vmul (elem x (butlast idx @ [i])) (weight l (last idx) i))
                                    [0..<in_features l]))
                                 (bias l (last idx)))\<rparr>)"

text \<open>The keys of \<open>cfg["model_params"]\<close> the constructor reads.\<close>

record model_params =
  model_architecture :: string
  history_num_frames :: nat
  future_num_frames :: nat

text \<open>
  The model: \<open>backbone\<close> stands for the layers of the torchvision network that \<open>forward\<close>
  applies before the head, from \<open>conv1\<close> to \<open>avgpool\<close>, followed by \<open>torch.flatten(x, 1)\<close>.
\<close>

record LyftMultiModel =
  backbone :: "tensor \<Rightarrow> tensor result"
  head :: linear
  logit :: linear
  future_len :: nat
  num_preds :: nat
  num_modes :: nat

text \<open>The constructors the file imports from \<open>torchvision.models.resnet\<close>.\<close>

definition imported_resnets :: "string list" where
  "imported_resnets = [''resnet50'', ''resnet18'', ''resnet34'', ''resnet101'']"

text \<open>The width the constructor gives the input of the head.\<close>

definition backbone_out_features :: "string \<Rightarrow> nat" where
  "backbone_out_features architecture = (if architecture = ''resnet50'' then 2048 else 512)"

text \<open>
  What the constructor takes from its environment: the network torchvision builds for an
  architecture name (with \<open>conv1\<close> replaced for the given number of input channels), and
  the initial weights of the two linear layers.
\<close>

record environment =
  torchvision :: "string \<Rightarrow> nat \<Rightarrow> tensor \<Rightarrow> tensor result"
  head_weight :: "nat \<Rightarrow> nat \<Rightarrow> val"
  head_bias :: "nat \<Rightarrow> val"
  logit_weight :: "nat \<Rightarrow> nat \<Rightarrow> val"
  logit_bias :: "nat \<Rightarrow> val"

text \<open>
  \<open>LyftMultiModel.__init__\<close>. \<open>eval(architecture)\<close> is modelled for the names of the
  constructors the file imports. Every other string makes the constructor fail; the model
  returns the NameError of a name that is not bound for all of them (a name bound to
  something else, such as \<open>np\<close>, fails with a TypeError instead).
\<close>

definition LyftMultiModel_init :: "model_params \<Rightarrow> nat \<Rightarrow> environment \<Rightarrow> LyftMultiModel result" where
  "LyftMultiModel_init cfg n_modes env =
     (let architecture = model_architecture cfg in
      if architecture \<notin> set imported_resnets then Inl NameError
      else
        let num_history_channels = (history_num_frames cfg + 1) * 2;
            num_in_channels = 3 + num_history_channels;
            n_future = future_num_frames cfg;
            num_targets = 2 * n_future;
            n_preds = num_targets * n_modes
        in Inr \<lparr>backbone = torchvision env architecture num_in_channels,
                head = \<lparr>in_features = backbone_out_features architecture, out_features = 4096,
                         weight = head_weight env, bias = head_bias env\<rparr>,
                logit = \<lparr>in_features = 4096, out_features = n_preds + n_modes,
                          weight = logit_weight env, bias = logit_bias env\<rparr>,
                future_len = n_future, num_preds = n_preds, num_modes = n_modes\<rparr>)"

text \<open>
  \<open>torch.split(x, split_size, dim=1)\<close> of a two-dimensional tensor: chunks of \<open>split_size\<close>
  columns, the last one smaller when the number of columns is not a multiple. A
  \<open>split_size\<close> of 0 is accepted only when there is no column.
\<close>

definition split_dim1 :: "tensor \<Rightarrow> nat \<Rightarrow> tensor list result" where
  "split_dim1 x split_size =
     (let bs = shape x ! 0; n = shape x ! 1 in
      if split_size = 0 then (if n = 0 then Inr [x] else Inl RuntimeError)
      else Inr (map (\<lambda>k. \<lparr>shape = [bs, min split_size (n - k * split_size)],
                           elem = (\<lambda>idx. elem x [idx ! 0, k * split_size + idx ! 1])\<rparr>)
                  [0..<max 1 ((n + split_size - 1) div split_size)]))"

text \<open>
  \<open>t.view(a, b, c, d)\<close> of a two-dimensional tensor whose rows stay rows (\<open>a\<close> is the number of
  rows): the columns are read in row-major order. The numbers of elements must agree.
\<close>

definition view4 :: "tensor \<Rightarrow> nat \<Rightarrow> nat \<Rightarrow> nat \<Rightarrow> nat \<Rightarrow> tensor result" where
  "view4 t a b c d =
     (if prod_list (shape t) \<noteq> a * b * c * d then Inl RuntimeError
      else Inr \<lparr>shape = [a, b, c, d],
                elem = (\<lambda>idx. elem t [idx ! 0, (idx ! 1 * c + idx ! 2) * d + idx ! 3])\<rparr>)"

text \<open>
  \<open>torch.softmax(t, dim=1)\<close> of a two-dimensional tensor: the exponentials of a row,
  shifted by its maximum, over their sum.
\<close>

definition softmax_row :: "val list \<Rightarrow> val \<Rightarrow> val" where
  "softmax_row row x =
     vdiv (vexp (vsub x (vmax_list row))) (vsum (map (\<lambda>y. vexp (vsub y (vmax_list row))) row))"

definition softmax_dim1 :: "tensor \<Rightarrow> tensor" where
  "softmax_dim1 t =
     \<lparr>shape = shape t,
      elem = (\<lambda>idx. softmax_row (map (\<lambda>j. elem t [idx ! 0, j]) [0..<shape t ! 1]) (elem t idx))\<rparr>"

text \<open>\<open>LyftMultiModel.forward\<close>\<close>

definition LyftMultiModel_forward :: "LyftMultiModel \<Rightarrow> tensor \<Rightarrow> (tensor \<times> tensor) result" where
  "LyftMultiModel_forward m x =
     rbind (backbone m x) (\<lambda>x.
     rbind (linear_forward (head m) x) (\<lambda>x.
     rbind (linear_forward (logit m) x) (\<lambda>x.
       if length (shape x) \<noteq> 2 then Inl ValueError
       else
         let bs = shape x ! 0 in
         rbind (split_dim1 x (num_preds m)) (\<lambda>chunks.
           case chunks of
             [pred, confidences] \<Rightarrow>
               rbind (view4 pred bs (num_modes m) (future_len m) 2) (\<lambda>pred.
                 if shape confidences \<noteq> [bs, num_modes m]
                 then Inl (AssertionError [] (shape confidences))
                 else Inr (pred, softmax_dim1 confidences))
           | _ \<Rightarrow> Inl ValueError))))"

text \<open>Every weight and every bias of a layer is finite.\<close>

definition finite_linear :: "linear \<Rightarrow> bool" where
  "finite_linear l =
     list_all (\<lambda>out. is_finite (bias l out) \<and>
                 list_all (\<lambda>i. is_finite (weight l out i)) [0..<in_features l])
       [0..<out_features l]"

text \<open>
  The width of the features of a torchvision resnet, as the comment in the constructor
  gives it: 512 for resnet18 and resnet34, 2048 for the other resnets.
\<close>

definition resnet_feature_width :: "string \<Rightarrow> nat" where
  "resnet_feature_width architecture =
     (if architecture = ''resnet18'' \<or> architecture = ''resnet34'' then 512 else 2048)"

section \<open>The single-mode loss as the specification words it\<close>

text \<open>
  The specification describes the single-mode loss as the batch loss of a prediction with
  a mode dimension of size 1 inserted, under an all-ones \<open>(B, 1)\<close> confidence tensor.
  These two tensors are written here from those words, index by index, to be compared
  with what \<open>pytorch_neg_multi_log_likelihood_single\<close> builds.
\<close>

definition with_single_mode :: "tensor \<Rightarrow> tensor" where
  "with_single_mode p =
     \<lparr>shape = [shape p ! 0, 1, shape p ! 1, shape p ! 2],
      elem = (\<lambda>idx. elem p [idx ! 0, idx ! 2, idx ! 3])\<rparr>"

definition all_ones :: "nat \<Rightarrow> nat \<Rightarrow> tensor" where
  "all_ones B M = \<lparr>shape = [B, M], elem = (\<lambda>idx. Fin 1)\<rparr>"

section \<open>The shapes as the specification words them\<close>

text \<open>
  The specification requires two coordinates: \<open>pred\<close> of shape \<open>(B, M, T, 2)\<close>, \<open>gt\<close> of
  shape \<open>(B, T, 2)\<close>, \<open>confidences\<close> of shape \<open>(B, M)\<close> and \<open>avails\<close> of shape \<open>(B, T)\<close>.
\<close>

definition shapes_as_specified :: "tensor \<Rightarrow> tensor \<Rightarrow> tensor \<Rightarrow> tensor \<Rightarrow> bool" where
  "shapes_as_specified gt pred confidences avails =
     (case shape pred of
        [B, M, T, C] \<Rightarrow>
          C = 2 \<and> shape gt = [B, T, 2] \<and> shape confidences = [B, M] \<and> shape avails = [B, T]
      | _ \<Rightarrow> False)"


section \<open>Masked timesteps\<close>

text \<open>
  Two predictions differ only at timesteps whose availability is 0: at every index of the
  prediction, the availability of the timestep is 0 or the two predictions agree.
\<close>

definition differ_only_where_unavailable :: "tensor \<Rightarrow> tensor \<Rightarrow> tensor \<Rightarrow> bool" where
  "differ_only_where_unavailable avails pred pred' =
     list_all (\<lambda>idx. elem avails [idx ! 0, idx ! 2] = Fin 0 \<or> elem pred idx = elem pred' idx)
       (indices (shape pred))"

text \<open>
  The difference \<open>gt - pred\<close> does not overflow at the timesteps whose availability is 0:
  at every index of the prediction where the availability of the timestep is 0, the
  difference is finite.
\<close>

definition no_overflow_where_unavailable :: "tensor \<Rightarrow> tensor \<Rightarrow> tensor \<Rightarrow> bool" where
  "no_overflow_where_unavailable gt pred avails =
     list_all (\<lambda>idx. elem avails [idx ! 0, idx ! 2] = Fin 0 \<longrightarrow>
                 is_finite (vsub (elem gt [idx ! 0, idx ! 2, idx ! 3]) (elem pred idx)))
       (indices (shape pred))"

section \<open>The raw error as the specification words it\<close>

text \<open>
  The raw error of a mode as the specification words it: the squared error of each
  timestep multiplied by the availability of the timestep, summed over time and
  coordinates.
\<close>

definition availability_weighted_error ::
  "tensor \<Rightarrow> tensor \<Rightarrow> tensor \<Rightarrow> nat \<Rightarrow> nat \<Rightarrow> nat \<Rightarrow> nat \<Rightarrow> val" where
  "availability_weighted_error gt pred avails T C b m =
     vsum (map (\<lambda>t. vsum (map (\<lambda>c.
        vmul (vpow2 (vsub (elem gt [b, t, c]) (elem pred [b, m, t, c]))) (elem avails [b, t]))
          [0..<C])) [0..<T])"

text \<open>
  The availabilities of a sample are masks: each is 1, or it is 0 and then no squared
  error of the mode overflows at that timestep.
\<close>

definition availability_is_mask ::
  "tensor \<Rightarrow> tensor \<Rightarrow> tensor \<Rightarrow> nat \<Rightarrow> nat \<Rightarrow> nat \<Rightarrow> nat \<Rightarrow> bool" where
  "availability_is_mask gt pred avails T C b m =
     list_all (\<lambda>t. elem avails [b, t] = Fin 1 \<or>
                 elem avails [b, t] = Fin 0 \<and>
                 list_all (\<lambda>c. is_finite (vpow2 (vsub (elem gt [b, t, c]) (elem pred [b, m, t, c]))))
                   [0..<C])
       [0..<T]"


section \<open>The loss of a single mode as the specification words it\<close>

text \<open>
  The sum over timesteps and coordinates of the squared errors \<open>(gt - pred)\<^sup>2\<close> of the only
  mode of sample \<open>b\<close>.
\<close>

definition squared_error :: "tensor \<Rightarrow> tensor \<Rightarrow> nat \<Rightarrow> nat \<Rightarrow> nat \<Rightarrow> val" where
  "squared_error gt pred T C b =
     vsum (map (\<lambda>t. vsum (map (\<lambda>c.
        vpow2 (vsub (elem gt [b, t, c]) (elem pred [b, 0, t, c]))) [0..<C])) [0..<T])"

text \<open>0.5 times the mean, over the batch, of these sums.\<close>

definition half_mean_squared_error :: "tensor \<Rightarrow> tensor \<Rightarrow> nat \<Rightarrow> nat \<Rightarrow> nat \<Rightarrow> val" where
  "half_mean_squared_error gt pred B T C =
     vmul (Fin (1 / 2)) (vmean (map (squared_error gt pred T C) [0..<B]))"

text \<open>The mean, over the batch, of 0.5 times these sums.\<close>

definition mean_half_squared_error :: "tensor \<Rightarrow> tensor \<Rightarrow> nat \<Rightarrow> nat \<Rightarrow> nat \<Rightarrow> val" where
  "mean_half_squared_error gt pred B T C =
     vmean (map (\<lambda>b. vmul (Fin (1 / 2)) (squared_error gt pred T C b)) [0..<B])"

section \<open>The loss of identical modes as the specification words it\<close>




section \<open>The loss over the modes of non-zero confidence\<close>

text \<open>The modes of sample \<open>b\<close> whose confidence is not 0, in their order.\<close>

definition nonzero_modes :: "tensor \<Rightarrow> nat \<Rightarrow> nat \<Rightarrow> nat list" where
  "nonzero_modes confidences M b = filter (\<lambda>m. elem confidences [b, m] \<noteq> Fin 0) [0..<M]"

text \<open>
  The loss computed over these modes only: for each sample the negated log-sum-exp of the
  log-scores of its modes of non-zero confidence, and the mean over the batch.
\<close>

definition loss_over_nonzero_modes ::
  "tensor \<Rightarrow> tensor \<Rightarrow> tensor \<Rightarrow> tensor \<Rightarrow> nat \<Rightarrow> nat \<Rightarrow> nat \<Rightarrow> nat \<Rightarrow> val" where
  "loss_over_nonzero_modes gt pred confidences avails B M T C =
     vmean (map (\<lambda>b. neg_logsumexp (map (mode_score gt pred confidences avails T C b)
                                       (nonzero_modes confidences M b)))
       [0..<B])"

section \<open>Rounding to the nearest integer\<close>

lemma rne_of_int [simp]: "rne (of_int n) = n"
  by (simp add: rne_def)

lemma rne_zero [simp]: "rne 0 = 0"
  using rne_of_int[of 0] by simp

lemma rne_cases: "rne x = \<lfloor>x\<rfloor> \<or> rne x = \<lfloor>x\<rfloor> + 1"
  by (simp add: rne_def Let_def)

lemma rne_err: "\<bar>of_int (rne x) - x\<bar> \<le> 1 / 2"
proof -
  have "of_int \<lfloor>x\<rfloor> \<le> x" "x < of_int \<lfloor>x\<rfloor> + 1" by linarith+
  then show ?thesis by (auto simp add: rne_def Let_def)
qed

lemma rne_near:
  assumes "of_int n - 1 / 2 < x" "x < of_int n + 1 / 2"
  shows "rne x = n"
proof -
  from rne_err[of x] assms have "\<bar>real_of_int (rne x) - real_of_int n\<bar> < 1" by linarith
  then have "\<bar>real_of_int (rne x - n)\<bar> < 1" by simp
  then have "\<bar>rne x - n\<bar> < 1" by linarith
  then show ?thesis by simp
qed

lemma rne_tie_even:
  assumes "\<bar>x - of_int n\<bar> \<le> 1 / 2" "even n"
  shows "rne x = n"
proof -
  consider "of_int n - 1 / 2 < x \<and> x < of_int n + 1 / 2" | "x = of_int n + 1 / 2" | "x = of_int n - 1 / 2"
    using assms(1) by linarith
  then show ?thesis
  proof cases
    case 1
    then show ?thesis by (simp add: rne_near)
  next
    case 2
    then have "\<lfloor>x\<rfloor> = n" by (intro floor_unique) simp_all
    with 2 assms(2) show ?thesis by (simp add: rne_def Let_def)
  next
    case 3
    then have f: "\<lfloor>x\<rfloor> = n - 1" by (intro floor_unique) simp_all
    with 3 assms(2) show ?thesis by (simp add: rne_def Let_def)
  qed
qed

lemma rne_mono:
  assumes "x \<le> y"
  shows "rne x \<le> rne y"
proof (cases "\<lfloor>x\<rfloor> = \<lfloor>y\<rfloor>")
  case True
  with assms show ?thesis by (auto simp add: rne_def Let_def)
next
  case False
  with floor_mono[OF assms] have "\<lfloor>x\<rfloor> + 1 \<le> \<lfloor>y\<rfloor>" by simp
  moreover have "rne x \<le> \<lfloor>x\<rfloor> + 1" using rne_cases[of x] by auto
  moreover have "\<lfloor>y\<rfloor> \<le> rne y" using rne_cases[of y] by auto
  ultimately show ?thesis by simp
qed

lemma rne_ge: "of_int n \<le> x \<Longrightarrow> n \<le> rne x"
  using rne_mono[of "of_int n" x] by simp

lemma rne_le: "x \<le> of_int n \<Longrightarrow> rne x \<le> n"
  using rne_mono[of x "of_int n"] by simp

lemma rne_minus: "rne (- x) = - rne x"
proof (cases "x = of_int \<lfloor>x\<rfloor>")
  case True
  then obtain n where "x = of_int n" ..
  then have "- x = of_int (- n)" by simp
  then show ?thesis unfolding \<open>x = of_int n\<close> by (simp only: rne_of_int)
next
  case False
  have "of_int \<lfloor>x\<rfloor> \<le> x" "x < of_int \<lfloor>x\<rfloor> + 1" by linarith+
  with False have lt: "of_int \<lfloor>x\<rfloor> < x" by linarith
  have fl: "\<lfloor>- x\<rfloor> = - \<lfloor>x\<rfloor> - 1"
  proof (rule floor_unique)
    show "of_int (- \<lfloor>x\<rfloor> - 1) \<le> - x" by simp linarith
    show "- x < of_int (- \<lfloor>x\<rfloor> - 1) + 1" using lt by simp
  qed
  have "x - of_int \<lfloor>x\<rfloor> < 1" by linarith
  with lt show ?thesis
    by (auto simp add: rne_def Let_def fl)
qed

section \<open>Binades\<close>

lemma two_powi_pos [simp]: "0 < (2::real) powi n"
  by (simp add: zero_less_power_int)

lemma two_powi_le: "m \<le> n \<Longrightarrow> (2::real) powi m \<le> 2 powi n"
  by (rule power_int_increasing) simp_all

lemma two_powi_less: "m < n \<Longrightarrow> (2::real) powi m < 2 powi n"
  by (rule power_int_strict_increasing) simp_all

lemma two_powi_less_D: "(2::real) powi m < 2 powi n \<Longrightarrow> m < n"
  using two_powi_le[of n m] by (cases "m < n") simp_all

lemma two_powi_add: "(2::real) powi (m + n) = 2 powi m * 2 powi n"
  by (simp add: power_int_add)

lemma two_powi_diff: "(2::real) powi (m - n) = 2 powi m / 2 powi n"
  by (simp add: power_int_diff)

lemma two_powi_eqI: "m = n \<Longrightarrow> (2::real) powi m = 2 powi n"
  by simp

lemma two_powr_int: "2 powr (real_of_int k) = (2::real) powi k"
  by (simp add: powr_real_of_int')

lemma two_powr_int1: "2 powr (real_of_int k + 1) = (2::real) powi (k + 1)"
  using two_powr_int[of "k + 1"] by simp

lemma floor_log2:
  assumes "0 < x"
  shows "2 powi \<lfloor>log 2 x\<rfloor> \<le> x" "x < 2 powi (\<lfloor>log 2 x\<rfloor> + 1)"
  using floor_log_eq_powr_iff[OF assms, of 2 "\<lfloor>log 2 x\<rfloor>"]
  by (simp_all add: two_powr_int two_powr_int1)

lemma floor_log2_eq:
  assumes "2 powi k \<le> x" "x < 2 powi (k + 1)"
  shows "\<lfloor>log 2 x\<rfloor> = k"
proof -
  have "0 < (2::real) powi k" by simp
  with assms(1) have "0 < x" by linarith
  then show ?thesis
    using floor_log_eq_powr_iff[of x 2 k] assms by (simp add: two_powr_int two_powr_int1)
qed

lemma expo_small: "\<bar>x\<bar> < 2 powi (- 126) \<Longrightarrow> expo x = - 126"
  by (simp add: expo_def)

lemma expo_upper: "\<bar>x\<bar> < 2 powi (expo x + 1)"
proof (cases "\<bar>x\<bar> < 2 powi (- 126)")
  case True
  moreover have "(2::real) powi (- 126) \<le> 2 powi (- 126 + 1)" by (rule two_powi_le) simp
  ultimately show ?thesis by (simp add: expo_def)
next
  case False
  have "0 < (2::real) powi (- 126)" by (rule two_powi_pos)
  with False have "0 < \<bar>x\<bar>" by linarith
  from floor_log2(2)[OF this] False show ?thesis by (simp add: expo_def)
qed

lemma expo_lower: "2 powi (- 126) \<le> \<bar>x\<bar> \<Longrightarrow> 2 powi (expo x) \<le> \<bar>x\<bar>"
proof -
  assume a: "2 powi (- 126) \<le> \<bar>x\<bar>"
  have "0 < (2::real) powi (- 126)" by (rule two_powi_pos)
  with a have "0 < \<bar>x\<bar>" by linarith
  from floor_log2(1)[OF this] a show ?thesis by (simp add: expo_def)
qed

lemma expo_ge: "- 126 \<le> expo x"
proof (cases "\<bar>x\<bar> < 2 powi (- 126)")
  case True
  then show ?thesis by (simp add: expo_def)
next
  case False
  then have "2 powi (- 126) \<le> \<bar>x\<bar>" by simp
  also have "\<bar>x\<bar> < 2 powi (expo x + 1)" by (rule expo_upper)
  finally have "- 126 < expo x + 1" by (rule two_powi_less_D)
  then show ?thesis by simp
qed

lemma expo_eq:
  assumes "2 powi E \<le> \<bar>x\<bar>" "\<bar>x\<bar> < 2 powi (E + 1)" "- 126 \<le> E"
  shows "expo x = E"
proof -
  have "(2::real) powi (- 126) \<le> 2 powi E" using assms(3) by (rule two_powi_le)
  with assms(1) have "\<not> \<bar>x\<bar> < 2 powi (- 126)" by linarith
  then show ?thesis using floor_log2_eq[OF assms(1,2)] by (simp add: expo_def)
qed

lemma expo_minus [simp]: "expo (- x) = expo x"
  by (simp add: expo_def)

lemma expo_le:
  assumes "\<bar>x\<bar> < 2 powi (E + 1)" "- 126 \<le> E"
  shows "expo x \<le> E"
proof (cases "\<bar>x\<bar> < 2 powi (- 126)")
  case True
  with assms(2) show ?thesis by (simp add: expo_def)
next
  case False
  then have "2 powi (expo x) \<le> \<bar>x\<bar>" by (intro expo_lower) simp
  also note assms(1)
  finally have "expo x < E + 1" by (rule two_powi_less_D)
  then show ?thesis by simp
qed

lemma expo_mono:
  assumes "\<bar>x\<bar> \<le> \<bar>y\<bar>"
  shows "expo x \<le> expo y"
proof (rule expo_le)
  from assms expo_upper[of y] show "\<bar>x\<bar> < 2 powi (expo y + 1)" by linarith
  show "- 126 \<le> expo y" by (rule expo_ge)
qed

section \<open>Rounding to float32\<close>

lemma ulp_pos [simp]: "0 < ulp x"
  by (simp add: ulp_def)

lemma ulp_nonneg [simp]: "0 \<le> ulp x"
  using ulp_pos[of x] by linarith

lemma ulp_neq0 [simp]: "ulp x \<noteq> 0"
  using ulp_pos[of x] by linarith

lemma abs_ulp [simp]: "\<bar>ulp x\<bar> = ulp x"
  by simp

lemma ulp_minus [simp]: "ulp (- x) = ulp x"
  by (simp add: ulp_def)

lemma nearest32_zero [simp]: "nearest32 0 = 0"
  by (simp add: nearest32_def)

lemma nearest32_minus: "nearest32 (- x) = - nearest32 x"
  by (simp add: nearest32_def rne_minus)

lemma nearest32_err: "\<bar>nearest32 x - x\<bar> \<le> ulp x / 2"
proof -
  have "nearest32 x - x = (of_int (rne (x / ulp x)) - x / ulp x) * ulp x"
    by (simp add: nearest32_def field_simps)
  then have "\<bar>nearest32 x - x\<bar> = \<bar>of_int (rne (x / ulp x)) - x / ulp x\<bar> * ulp x"
    by (simp add: abs_mult)
  also have "\<dots> \<le> 1 / 2 * ulp x"
    by (rule mult_right_mono[OF rne_err]) simp
  finally show ?thesis by simp
qed

lemma ulp_times: "2 ^ 24 * ulp x = 2 powi (expo x + 1)"
proof -
  have "(2::real) powi (expo x + 1) = 2 powi (24 + (expo x - 23))"
    by (rule two_powi_eqI) simp
  also have "\<dots> = 2 powi 24 * 2 powi (expo x - 23)" by (rule two_powi_add)
  finally show ?thesis by (simp add: ulp_def)
qed

lemma ulp_times': "2 ^ 23 * ulp x = 2 powi (expo x)"
proof -
  have "(2::real) powi (expo x) = 2 powi (23 + (expo x - 23))"
    by (rule two_powi_eqI) simp
  also have "\<dots> = 2 powi 23 * 2 powi (expo x - 23)" by (rule two_powi_add)
  finally show ?thesis by (simp add: ulp_def)
qed

lemma ulp_times_num: "16777216 * ulp x = 2 powi (expo x + 1)"
  using ulp_times[of x] by simp

lemma quot_bound: "\<bar>x / ulp x\<bar> < 2 ^ 24"
proof -
  have "\<bar>x\<bar> < 2 ^ 24 * ulp x" using expo_upper[of x] by (simp only: ulp_times)
  then have "\<bar>x\<bar> / ulp x < 2 ^ 24" by (simp add: pos_divide_less_eq)
  then show ?thesis by (simp add: abs_divide)
qed

lemma rne_quot_bound: "\<bar>rne (x / ulp x)\<bar> \<le> 2 ^ 24"
proof -
  from quot_bound[of x] have "x / ulp x \<le> 2 ^ 24" "- (2 ^ 24) \<le> x / ulp x"
    by linarith+
  then have "x / ulp x \<le> of_int (2 ^ 24)" "of_int (- (2 ^ 24)) \<le> x / ulp x"
    by simp_all
  from rne_le[OF this(1)] rne_ge[OF this(2)] show ?thesis by simp
qed

lemma nearest32_grid:
  assumes x: "x = of_int k * 2 powi j" and k: "\<bar>k\<bar> < 2 ^ 24" and j: "- 149 \<le> j"
  shows "nearest32 x = x"
proof (cases "k = 0")
  case True
  with x show ?thesis by simp
next
  case False
  then have k1: "1 \<le> \<bar>real_of_int k\<bar>" by linarith
  have ax: "\<bar>x\<bar> = \<bar>real_of_int k\<bar> * 2 powi j" by (simp add: x abs_mult)
  have e: "expo x - 23 \<le> j"
  proof (cases "\<bar>x\<bar> < 2 powi (- 126)")
    case True
    with j show ?thesis by (simp add: expo_small)
  next
    case False
    then have "2 powi (expo x) \<le> \<bar>x\<bar>" by (intro expo_lower) simp
    also have "\<bar>x\<bar> < 2 ^ 24 * 2 powi j"
      unfolding ax using k by (intro mult_strict_right_mono) simp_all
    also have "2 ^ 24 * 2 powi j = (2::real) powi (24 + j)"
      by (simp add: two_powi_add)
    finally have "expo x < 24 + j" by (rule two_powi_less_D)
    then show ?thesis by simp
  qed
  define d where "d = nat (j - (expo x - 23))"
  define u where "u = ulp x"
  have u0: "0 < u" by (simp add: u_def)
  have jd: "j = int d + (expo x - 23)" using e by (simp add: d_def)
  have "(2::real) powi j = 2 powi (int d) * 2 powi (expo x - 23)"
    by (subst jd) (rule two_powi_add)
  then have pj: "2 powi j = 2 ^ d * u" by (simp add: ulp_def u_def power_int_of_nat)
  have xu: "x = of_int (k * 2 ^ d) * u" unfolding x pj by simp
  with u0 have "x / u = of_int (k * 2 ^ d)" by simp
  then have "rne (x / u) = k * 2 ^ d" by (simp only: rne_of_int)
  then have "of_int (rne (x / u)) * u = x" using xu by simp
  then show ?thesis
    unfolding nearest32_def u_def .
qed

lemma nearest32_idem [simp]: "nearest32 (nearest32 x) = nearest32 x"
proof (cases "\<bar>rne (x / ulp x)\<bar> < 2 ^ 24")
  case True
  show ?thesis
    by (rule nearest32_grid[where k = "rne (x / ulp x)" and j = "expo x - 23"])
       (use True expo_ge[of x] in \<open>simp_all add: nearest32_def ulp_def\<close>)
next
  case False
  with rne_quot_bound[of x] have "\<bar>rne (x / ulp x)\<bar> = 2 ^ 24" by simp
  then consider "rne (x / ulp x) = 2 ^ 24" | "rne (x / ulp x) = - (2 ^ 24)" by linarith
  then show ?thesis
  proof cases
    case 1
    then have "nearest32 x = of_int 1 * 2 powi (expo x + 1)"
      by (simp add: nearest32_def ulp_times_num)
    then show ?thesis
      by (rule nearest32_grid) (use expo_ge[of x] in simp_all)
  next
    case 2
    then have "nearest32 x = of_int (- 1) * 2 powi (expo x + 1)"
      by (simp add: nearest32_def ulp_times_num)
    then show ?thesis
      by (rule nearest32_grid) (use expo_ge[of x] in simp_all)
  qed
qed

lemma nearest32_nonneg: "0 \<le> x \<Longrightarrow> 0 \<le> nearest32 x"
proof -
  assume "0 \<le> x"
  then have "of_int 0 \<le> x / ulp x" by simp
  from rne_ge[OF this] show ?thesis by (simp add: nearest32_def)
qed

lemma nearest32_mono_nonneg:
  assumes "0 \<le> x" "x \<le> y"
  shows "nearest32 x \<le> nearest32 y"
proof -
  have e: "expo x \<le> expo y" using assms by (intro expo_mono) simp
  show ?thesis
  proof (cases "expo x = expo y")
    case True
    then have u: "ulp x = ulp y" by (simp add: ulp_def)
    have "x / ulp y \<le> y / ulp y" using assms(2) by (simp add: divide_right_mono)
    from rne_mono[OF this] show ?thesis
      by (simp add: nearest32_def u)
  next
    case False
    with e have lt: "expo x < expo y" by simp
    have "- 126 < expo y" using lt expo_ge[of x] by simp
    then have "\<not> \<bar>y\<bar> < 2 powi (- 126)" using expo_small[of y] by auto
    then have ly: "2 powi (expo y) \<le> y" using expo_lower[of y] assms by simp
    have "x / ulp x \<le> 2 ^ 24" using quot_bound[of x] by linarith
    then have "x / ulp x \<le> of_int (2 ^ 24)" by simp
    from rne_le[OF this] have "real_of_int (rne (x / ulp x)) \<le> 2 ^ 24"
      by (metis of_int_le_iff of_int_numeral of_int_power)
    then have "nearest32 x \<le> 2 ^ 24 * ulp x"
      unfolding nearest32_def by (intro mult_right_mono) simp_all
    also have "\<dots> = 2 powi (expo x + 1)" by (rule ulp_times)
    also have "\<dots> \<le> 2 powi (expo y)" using lt by (intro two_powi_le) simp
    also have "\<dots> = 2 ^ 23 * ulp y" by (rule ulp_times'[symmetric])
    also have "\<dots> \<le> nearest32 y"
    proof -
      have "2 ^ 23 * ulp y \<le> y" using ly by (simp only: ulp_times')
      then have "of_int (2 ^ 23) \<le> y / ulp y" by (simp add: pos_le_divide_eq)
      from rne_ge[OF this] have "2 ^ 23 \<le> real_of_int (rne (y / ulp y))"
        by (metis of_int_le_iff of_int_numeral of_int_power)
      then show ?thesis
        unfolding nearest32_def by (intro mult_right_mono) simp_all
    qed
    finally show ?thesis .
  qed
qed

lemma nearest32_mono:
  assumes "x \<le> y"
  shows "nearest32 x \<le> nearest32 y"
proof -
  consider "0 \<le> x" | "y \<le> 0" | "x < 0" "0 < y" by linarith
  then show ?thesis
  proof cases
    case 1
    then show ?thesis using assms by (rule nearest32_mono_nonneg)
  next
    case 2
    then have "nearest32 (- y) \<le> nearest32 (- x)"
      using assms by (intro nearest32_mono_nonneg) simp_all
    then show ?thesis by (simp add: nearest32_minus)
  next
    case 3
    then have "0 \<le> nearest32 y" "0 \<le> nearest32 (- x)"
      by (simp_all add: nearest32_nonneg)
    then show ?thesis by (simp add: nearest32_minus)
  qed
qed

lemma nearest32_powi: "- 149 \<le> j \<Longrightarrow> nearest32 (2 powi j) = 2 powi j"
  by (rule nearest32_grid[where k = 1 and j = j]) simp_all

lemma nearest32_minus_powi: "- 149 \<le> j \<Longrightarrow> nearest32 (- (2 powi j)) = - (2 powi j)"
  by (simp add: nearest32_minus nearest32_powi)

lemma nearest32_int: "\<bar>k\<bar> < 2 ^ 24 \<Longrightarrow> nearest32 (of_int k) = of_int k"
  by (rule nearest32_grid[where k = k and j = 0]) simp_all

lemma nearest32_err_bound:
  assumes "\<bar>x\<bar> < 2 powi (E + 1)" "- 126 \<le> E"
  shows "\<bar>nearest32 x - x\<bar> \<le> 2 powi (E - 24)"
proof -
  have "expo x \<le> E" using assms by (rule expo_le)
  then have "ulp x \<le> 2 powi (E - 23)" unfolding ulp_def by (intro two_powi_le) simp
  moreover have "(2::real) powi (E - 23) = 2 powi (1 + (E - 24))"
    by (rule two_powi_eqI) simp
  then have "(2::real) powi (E - 23) = 2 * 2 powi (E - 24)"
    by (simp only: two_powi_add) simp
  ultimately show ?thesis using nearest32_err[of x] by linarith
qed

section \<open>Overflow\<close>

lemma round32_zero [simp]: "round32 0 = Fin 0"
  by (simp add: round32_def)

lemma round32_fix: "nearest32 x = x \<Longrightarrow> \<bar>x\<bar> < 2 ^ 128 \<Longrightarrow> round32 x = Fin x"
  by (simp add: round32_def)

lemma round32_FinD: "round32 x = Fin y \<Longrightarrow> y = nearest32 x \<and> \<bar>y\<bar> < 2 ^ 128"
  by (auto simp add: round32_def Let_def split: if_splits)

lemma round32_idem:
  assumes "round32 x = Fin y"
  shows "round32 y = Fin y"
proof -
  from round32_FinD[OF assms] have y: "y = nearest32 x" "\<bar>y\<bar> < 2 ^ 128" by blast+
  have "nearest32 y = y" unfolding y(1) by (rule nearest32_idem)
  from round32_fix[OF this y(2)] show ?thesis .
qed

lemma round32_cases:
  "round32 x = Fin (nearest32 x) \<and> \<bar>nearest32 x\<bar> < 2 ^ 128 \<or>
   round32 x = PInf \<and> 0 < x \<or> round32 x = NInf \<and> x < 0"
proof (cases "x = 0")
  case True
  then show ?thesis by simp
next
  case False
  then show ?thesis by (auto simp add: round32_def Let_def)
qed

lemma round32_minus: "round32 (- x) = vneg (round32 x)"
proof (cases "x = 0")
  case True
  then show ?thesis by simp
next
  case False
  then show ?thesis by (auto simp add: round32_def Let_def nearest32_minus)
qed

lemma round32_between:
  assumes "nearest32 a = a" "nearest32 b = b" "a \<le> x" "x \<le> b" "- (2 ^ 128) < a" "b < 2 ^ 128"
  shows "round32 x = Fin (nearest32 x)" "a \<le> nearest32 x" "nearest32 x \<le> b"
proof -
  from nearest32_mono[OF assms(3)] assms(1) show a: "a \<le> nearest32 x" by simp
  from nearest32_mono[OF assms(4)] assms(2) show b: "nearest32 x \<le> b" by simp
  from a b assms(5,6) have "\<bar>nearest32 x\<bar> < 2 ^ 128" by linarith
  then show "round32 x = Fin (nearest32 x)" by (simp add: round32_def)
qed

section \<open>The operations at the shapes of the loss\<close>

lemma bsel: "i < d \<Longrightarrow> (if d = Suc 0 then 0 else i) = i"
  by auto

lemma vsum_cong_upt:
  "(\<And>j. j < n \<Longrightarrow> f j = g j) \<Longrightarrow> vsum (map f [0..<n]) = vsum (map g [0..<n])"
  by (rule arg_cong[where f = vsum]) simp

lemma unsqueeze_gt:
  assumes "shape t = [B, T, C]"
  shows "\<exists>u. unsqueeze t 1 = Inr u \<and> shape u = [B, 1, T, C] \<and>
    (\<forall>b m t' c. elem u [b, m, t', c] = elem t [b, t', c])"
  using assms by (simp add: unsqueeze_def)

lemma index_avails:
  assumes "shape t = [B, T]"
  shows "\<exists>u. index_slice_none_slice_none t = Inr u \<and> shape u = [B, 1, T, 1] \<and>
    (\<forall>b m t' c. elem u [b, m, t', c] = elem t [b, t'])"
  using assms by (simp add: index_slice_none_slice_none_def)

lemma tbinop_gt_pred:
  assumes "shape a = [B, 1, T, C]" "shape p = [B, M, T, C]"
  shows "\<exists>r. tbinop f a p = Inr r \<and> shape r = [B, M, T, C] \<and>
    (\<forall>b m t c. b < B \<longrightarrow> m < M \<longrightarrow> t < T \<longrightarrow> c < C \<longrightarrow>
       elem r [b, m, t, c] = f (elem a [b, 0, t, c]) (elem p [b, m, t, c]))"
  using assms by (auto simp add: tbinop_def broadcast_shapes_def bdim_def bindex_def)

lemma tbinop_diff_avails:
  assumes "shape a = [B, M, T, C]" "shape p = [B, 1, T, 1]"
  shows "\<exists>r. tbinop f a p = Inr r \<and> shape r = [B, M, T, C] \<and>
    (\<forall>b m t c. b < B \<longrightarrow> m < M \<longrightarrow> t < T \<longrightarrow> c < C \<longrightarrow>
       elem r [b, m, t, c] = f (elem a [b, m, t, c]) (elem p [b, 0, t, 0]))"
  using assms by (auto simp add: tbinop_def broadcast_shapes_def bdim_def bindex_def)

lemma tsum_last4:
  assumes "shape a = [B, M, T, C]"
  shows "\<exists>r. tsum a (- 1) False = Inr r \<and> shape r = [B, M, T] \<and>
    (\<forall>b m t. elem r [b, m, t] = (vsum (map (\<lambda>c. elem a [b, m, t, c]) [0..<C])))"
  using assms by (simp add: tsum_def norm_dim_def)

lemma tsum_last3:
  assumes "shape a = [B, M, T]"
  shows "\<exists>r. tsum a (- 1) False = Inr r \<and> shape r = [B, M] \<and>
    (\<forall>b m. elem r [b, m] = (vsum (map (\<lambda>t. elem a [b, m, t]) [0..<T])))"
  using assms by (simp add: tsum_def norm_dim_def)

lemma raw_error_closed:
  assumes "shape pred = [B, M, T, C]" "shape gt = [B, T, C]" "shape avails = [B, T]"
  shows "\<exists>r. raw_error gt pred avails = Inr r \<and> shape r = [B, M] \<and>
     (\<forall>b m. b < B \<longrightarrow> m < M \<longrightarrow> elem r [b, m] = mode_error gt pred avails T C b m)"
proof -
  from unsqueeze_gt[OF assms(2)] obtain g where
    g: "unsqueeze gt 1 = Inr g" "shape g = [B, 1, T, C]"
       "\<And>b m t c. elem g [b, m, t, c] = elem gt [b, t, c]" by blast
  from index_avails[OF assms(3)] obtain a where
    a: "index_slice_none_slice_none avails = Inr a" "shape a = [B, 1, T, 1]"
       "\<And>b m t c. elem a [b, m, t, c] = elem avails [b, t]" by blast
  from tbinop_gt_pred[OF g(2) assms(1), of vsub] obtain d where
    d: "tsub g pred = Inr d" "shape d = [B, M, T, C]"
       "\<And>b m t c. b < B \<Longrightarrow> m < M \<Longrightarrow> t < T \<Longrightarrow> c < C \<Longrightarrow>
          elem d [b, m, t, c] = vsub (elem g [b, 0, t, c]) (elem pred [b, m, t, c])"
    unfolding tsub_def by blast
  from tbinop_diff_avails[OF d(2) a(2), of vmul] obtain e where
    e: "tmul d a = Inr e" "shape e = [B, M, T, C]"
       "\<And>b m t c. b < B \<Longrightarrow> m < M \<Longrightarrow> t < T \<Longrightarrow> c < C \<Longrightarrow>
          elem e [b, m, t, c] = vmul (elem d [b, m, t, c]) (elem a [b, 0, t, 0])"
    unfolding tmul_def by blast
  have sp: "shape (tpow2 e) = [B, M, T, C]" by (simp add: tpow2_def tmap_def e(2))
  from tsum_last4[OF sp] obtain s1 where
    s1: "tsum (tpow2 e) (- 1) False = Inr s1" "shape s1 = [B, M, T]"
       "\<And>b m t. elem s1 [b, m, t] = (vsum (map (\<lambda>c. elem (tpow2 e) [b, m, t, c]) [0..<C]))" by blast
  from tsum_last3[OF s1(2)] obtain s2 where
    s2: "tsum s1 (- 1) False = Inr s2" "shape s2 = [B, M]"
       "\<And>b m. elem s2 [b, m] = (vsum (map (\<lambda>t. elem s1 [b, m, t]) [0..<T]))" by blast
  have r: "raw_error gt pred avails = Inr s2"
    unfolding raw_error_def g(1) a(1) d(1) e(1) s1(1) s2(1) rbind_def sum.case ..
  have "elem s2 [b, m] = mode_error gt pred avails T C b m" if "b < B" "m < M" for b m
    unfolding mode_error_def s2(3) s1(3)
    by (intro vsum_cong_upt) (simp add: tpow2_def tmap_def e(3) d(3) g(3) a(3) that)
  with r s2(2) show ?thesis by blast
qed

lemma tlog_shape [simp]: "shape (tlog t) = shape t"
  by (simp add: tlog_def tmap_def)

lemma tlog_elem [simp]: "elem (tlog t) i = vlog (elem t i)"
  by (simp add: tlog_def tmap_def)

lemma texp_shape [simp]: "shape (texp t) = shape t"
  by (simp add: texp_def tmap_def)

lemma texp_elem [simp]: "elem (texp t) i = vexp (elem t i)"
  by (simp add: texp_def tmap_def)

lemma tneg_shape [simp]: "shape (tneg t) = shape t"
  by (simp add: tneg_def tmap_def)

lemma tneg_elem [simp]: "elem (tneg t) i = vneg (elem t i)"
  by (simp add: tneg_def tmap_def)

lemma tpow2_shape [simp]: "shape (tpow2 t) = shape t"
  by (simp add: tpow2_def tmap_def)

lemma tpow2_elem [simp]: "elem (tpow2 t) i = vpow2 (elem t i)"
  by (simp add: tpow2_def tmap_def)

lemma tscale_shape [simp]: "shape (tscale c t) = shape t"
  by (simp add: tscale_def tmap_def)

lemma tscale_elem [simp]: "elem (tscale c t) i = vmul (Fin c) (elem t i)"
  by (simp add: tscale_def tmap_def)


lemma tbinop_same2:
  assumes "shape a = [B, M]" "shape p = [B, M]"
  shows "\<exists>r. tbinop f a p = Inr r \<and> shape r = [B, M] \<and>
    (\<forall>b m. b < B \<longrightarrow> m < M \<longrightarrow> elem r [b, m] = f (elem a [b, m]) (elem p [b, m]))"
  using assms by (auto simp add: tbinop_def broadcast_shapes_def bdim_def bindex_def)

lemma tbinop_col2:
  assumes "shape a = [B, M]" "shape p = [B, 1]"
  shows "\<exists>r. tbinop f a p = Inr r \<and> shape r = [B, M] \<and>
    (\<forall>b m. b < B \<longrightarrow> m < M \<longrightarrow> elem r [b, m] = f (elem a [b, m]) (elem p [b, 0]))"
  using assms by (auto simp add: tbinop_def broadcast_shapes_def bdim_def bindex_def)

lemma tmax_keepdim2:
  assumes "shape a = [B, M]" "0 < M"
  shows "\<exists>r. tmax_keepdim a 1 = Inr r \<and> shape r = [B, 1] \<and>
    (\<forall>b k. elem r [b, k] = vmax_list (map (\<lambda>j. elem a [b, j]) [0..<M]))"
  using assms by (simp add: tmax_keepdim_def norm_dim_def)

lemma tmax_keepdim2_empty:
  assumes "shape a = [B, 0]"
  shows "tmax_keepdim a 1 = Inl IndexError"
  using assms by (simp add: tmax_keepdim_def norm_dim_def)

lemma tsum_keep2:
  assumes "shape a = [B, M]"
  shows "\<exists>r. tsum a (- 1) True = Inr r \<and> shape r = [B, 1] \<and>
    (\<forall>b k. elem r [b, k] = (vsum (map (\<lambda>j. elem a [b, j]) [0..<M])))"
  using assms by (simp add: tsum_def norm_dim_def)

lemma indices_B1: "indices [B, 1] = map (\<lambda>b. [b, 0]) [0..<B]"
  by simp

section \<open>The loss in closed form\<close>

lemma map_cong_upt: "(\<And>j. j < n \<Longrightarrow> f j = g j) \<Longrightarrow> map f [0..<n] = map g [0..<n]"
  by simp

lemma nll_reduce_closed:
  assumes sh: "shape pred = [B, M, T, C]" "shape gt = [B, T, C]" "shape confidences = [B, M]"
    "shape avails = [B, T]" and M: "0 < M"
  shows "nll_reduce gt pred confidences avails =
    Inr (vmean (map (sample_loss gt pred confidences avails M T C) [0..<B]))"
proof -
  from raw_error_closed[OF sh(1,2,4)] obtain raw where
    raw: "raw_error gt pred avails = Inr raw" "shape raw = [B, M]"
      "\<And>b m. b < B \<Longrightarrow> m < M \<Longrightarrow> elem raw [b, m] = mode_error gt pred avails T C b m" by blast
  have s1: "shape (tlog confidences) = [B, M]" "shape (tscale (1 / 2) raw) = [B, M]"
    by (simp_all add: sh raw)
  from tbinop_same2[OF s1, of vsub] obtain err where
    err: "tsub (tlog confidences) (tscale (1 / 2) raw) = Inr err" "shape err = [B, M]"
      "\<And>b m. b < B \<Longrightarrow> m < M \<Longrightarrow> elem err [b, m] =
         vsub (elem (tlog confidences) [b, m]) (elem (tscale (1 / 2) raw) [b, m])"
    unfolding tsub_def by blast
  have err_score: "elem err [b, m] = mode_score gt pred confidences avails T C b m"
    if "b < B" "m < M" for b m
    by (simp add: err(3) that raw(3) mode_score_def)
  from tmax_keepdim2[OF err(2) M] obtain mx where
    mx: "tmax_keepdim err 1 = Inr mx" "shape mx = [B, 1]"
      "\<And>b k. elem mx [b, k] = vmax_list (map (\<lambda>j. elem err [b, j]) [0..<M])" by blast
  from tbinop_col2[OF err(2) mx(2), of vsub] obtain sft where
    sft: "tsub err mx = Inr sft" "shape sft = [B, M]"
      "\<And>b m. b < B \<Longrightarrow> m < M \<Longrightarrow> elem sft [b, m] = vsub (elem err [b, m]) (elem mx [b, 0])"
    unfolding tsub_def by blast
  have s2: "shape (texp sft) = [B, M]" by (simp add: sft)
  from tsum_keep2[OF s2] obtain tot where
    tot: "tsum (texp sft) (- 1) True = Inr tot" "shape tot = [B, 1]"
      "\<And>b k. elem tot [b, k] = (vsum (map (\<lambda>j. elem (texp sft) [b, j]) [0..<M]))" by blast
  have s3: "shape (tneg (tlog tot)) = [B, 1]" by (simp add: tot)
  from tbinop_col2[OF s3 mx(2), of vsub] obtain res where
    res: "tsub (tneg (tlog tot)) mx = Inr res" "shape res = [B, 1]"
      "\<And>b m. b < B \<Longrightarrow> m < 1 \<Longrightarrow> elem res [b, m] =
         vsub (elem (tneg (tlog tot)) [b, m]) (elem mx [b, 0])"
    unfolding tsub_def by blast
  have "nll_reduce gt pred confidences avails = Inr (tmean res)"
    unfolding nll_reduce_def raw(1) err(1) mx(1) sft(1) tot(1) res(1) rbind_def sum.case ..
  moreover have "elem res [b, 0] = sample_loss gt pred confidences avails M T C b" if b: "b < B" for b
  proof -
    have scores: "map (\<lambda>j. elem err [b, j]) [0..<M] =
        map (mode_score gt pred confidences avails T C b) [0..<M]"
      by (rule map_cong_upt) (simp add: err_score b)
    have mxb: "elem mx [b, 0] = vmax_list (map (mode_score gt pred confidences avails T C b) [0..<M])"
      by (simp add: mx(3) scores)
    have "(vsum (map (\<lambda>j. elem (texp sft) [b, j]) [0..<M])) =
       (vsum (map (\<lambda>j. vexp (vsub (mode_score gt pred confidences avails T C b j) (elem mx [b, 0]))) [0..<M]))"
      by (rule vsum_cong_upt) (simp add: sft(3) b err_score)
    then show ?thesis
      by (simp add: res(3) b tot(3) sample_loss_def neg_logsumexp_def mxb comp_def)
  qed
  then have "map (\<lambda>b. elem res [b, 0]) [0..<B] =
      map (sample_loss gt pred confidences avails M T C) [0..<B]"
    by (intro map_cong_upt)
  ultimately show ?thesis
    by (simp add: tmean_def elements_def res(2) indices_B1 comp_def)
qed

lemma nll_reduce_no_modes:
  assumes sh: "shape pred = [B, 0, T, C]" "shape gt = [B, T, C]" "shape confidences = [B, 0]"
    "shape avails = [B, T]"
  shows "nll_reduce gt pred confidences avails = Inl IndexError"
proof -
  from raw_error_closed[OF sh(1,2,4)] obtain raw where
    raw: "raw_error gt pred avails = Inr raw" "shape raw = [B, 0]" by blast
  have s1: "shape (tlog confidences) = [B, 0]" "shape (tscale (1 / 2) raw) = [B, 0]"
    by (simp_all add: sh raw)
  from tbinop_same2[OF s1, of vsub] obtain err where
    err: "tsub (tlog confidences) (tscale (1 / 2) raw) = Inr err" "shape err = [B, 0]"
    unfolding tsub_def by blast
  show ?thesis
    unfolding nll_reduce_def raw(1) err(1) rbind_def sum.case tmax_keepdim2_empty[OF err(2)] ..
qed

section \<open>The assertions\<close>

lemma length4_conv: "length s = 4 \<longleftrightarrow> (\<exists>a b c d. s = [a, b, c, d])"
  by (auto simp: length_Suc_conv eval_nat_numeral)

lemma shapes_okD:
  assumes "shapes_ok gt pred confidences avails"
  obtains B M T C where "shape pred = [B, M, T, C]" "shape gt = [B, T, C]"
    "shape confidences = [B, M]" "shape avails = [B, T]"
  using assms by (auto simp: shapes_ok_def split: list.splits)

lemma shapes_okI:
  "shape pred = [B, M, T, C] \<Longrightarrow> shape gt = [B, T, C] \<Longrightarrow> shape confidences = [B, M] \<Longrightarrow>
   shape avails = [B, T] \<Longrightarrow> shapes_ok gt pred confidences avails"
  by (simp add: shapes_ok_def)

lemma conf_row_sums:
  assumes "shape a = [B, M]"
  shows "\<exists>r. tsum a 1 False = Inr r \<and> shape r = [B] \<and>
    (\<forall>b. elem r [b] = (vsum (map (\<lambda>j. elem a [b, j]) [0..<M])))"
  using assms by (simp add: tsum_def norm_dim_def)

lemma indices_B: "indices [B] = map (\<lambda>b. [b]) [0..<B]"
  by simp

lemma allclose_rows:
  assumes "shape r = [B]"
  shows "allclose r (new_ones [B]) = Inr (list_all (\<lambda>b. isclose (elem r [b]) (Fin 1)) [0..<B])"
  using assms
  by (auto simp add: allclose_def new_ones_def broadcast_shapes_def bdim_def indices_B bindex_def
      list_all_iff simp del: indices.simps)

lemma batch_assertions:
  assumes sh: "shape pred = [B, M, T, C]"
  shows "pytorch_neg_multi_log_likelihood_batch gt pred confidences avails =
     (if shape gt \<noteq> [B, T, C]
      then Inl (AssertionError ''expected 2D (Time x Coords) array for gt'' (shape gt))
      else if shape confidences \<noteq> [B, M]
      then Inl (AssertionError ''expected 1D (Modes) array for gt'' (shape confidences))
      else if \<not> rows_sum_to_one confidences
      then Inl (AssertionError ''confidences should sum to 1'' [])
      else if shape avails \<noteq> [B, T]
      then Inl (AssertionError ''expected 1D (Time) array for gt'' (shape avails))
      else if \<not> all_finite pred
      then Inl (AssertionError ''invalid value found in pred'' [])
      else if \<not> all_finite gt
      then Inl (AssertionError ''invalid value found in gt'' [])
      else if \<not> all_finite confidences
      then Inl (AssertionError ''invalid value found in confidences'' [])
      else if \<not> all_finite avails
      then Inl (AssertionError ''invalid value found in avails'' [])
      else nll_reduce gt pred confidences avails)"
proof (cases "shape gt = [B, T, C] \<and> shape confidences = [B, M]")
  case False
  then show ?thesis
    by (auto simp add: pytorch_neg_multi_log_likelihood_batch_def sh)
next
  case True
  then have c: "shape confidences = [B, M]" and g: "shape gt = [B, T, C]" by simp_all
  from conf_row_sums[OF c] obtain rs where
    rs: "tsum confidences 1 False = Inr rs" "shape rs = [B]"
      "\<And>b. elem rs [b] = (vsum (map (\<lambda>j. elem confidences [b, j]) [0..<M]))" by blast
  have close: "allclose rs (new_ones [B]) = Inr (rows_sum_to_one confidences)"
    by (simp add: allclose_rows[OF rs(2)] rows_sum_to_one_def c rs(3))
  show ?thesis
    by (simp add: pytorch_neg_multi_log_likelihood_batch_def sh g c rs(1) close rbind_def)
qed

lemma batch_valid:
  assumes "inputs_valid gt pred confidences avails"
  shows "pytorch_neg_multi_log_likelihood_batch gt pred confidences avails =
     nll_reduce gt pred confidences avails"
proof -
  from assms have ok: "shapes_ok gt pred confidences avails" by (simp add: inputs_valid_def)
  then obtain B M T C where sh: "shape pred = [B, M, T, C]" "shape gt = [B, T, C]"
    "shape confidences = [B, M]" "shape avails = [B, T]" by (rule shapes_okD)
  show ?thesis
    using assms by (simp add: batch_assertions[OF sh(1)] sh inputs_valid_def)
qed

lemma batch_invalid:
  assumes "\<not> inputs_valid gt pred confidences avails"
  shows "\<exists>msg s. pytorch_neg_multi_log_likelihood_batch gt pred confidences avails =
     Inl (AssertionError msg s)"
proof (cases "length (shape pred) = 4")
  case False
  then show ?thesis by (simp add: pytorch_neg_multi_log_likelihood_batch_def)
next
  case True
  then obtain B M T C where sh: "shape pred = [B, M, T, C]"
    by (auto simp: length4_conv)
  show ?thesis
    using assms
    by (auto simp add: batch_assertions[OF sh] inputs_valid_def shapes_ok_def sh)
qed

section \<open>Finite tensors\<close>

lemma set_indices_Cons:
  "set (indices (n # s)) = {i # idx | i idx. i < n \<and> idx \<in> set (indices s)}"
  by auto

lemma set_indices_Nil: "set (indices []) = {[]}"
  by simp

lemma set_indices4:
  "set (indices [B, M, T, C]) = {[b, m, t, c] | b m t c. b < B \<and> m < M \<and> t < T \<and> c < C}"
  unfolding set_indices_Cons set_indices_Nil by blast

lemma set_indices3:
  "set (indices [B, T, C]) = {[b, t, c] | b t c. b < B \<and> t < T \<and> c < C}"
  unfolding set_indices_Cons set_indices_Nil by blast

lemma set_indices2:
  "set (indices [B, M]) = {[b, m] | b m. b < B \<and> m < M}"
  unfolding set_indices_Cons set_indices_Nil by blast

lemma all_finite_iff4:
  "shape t = [B, M, T, C] \<Longrightarrow>
   all_finite t \<longleftrightarrow> (\<forall>b<B. \<forall>m<M. \<forall>t'<T. \<forall>c<C. is_finite (elem t [b, m, t', c]))"
  unfolding all_finite_def elements_def list_all_iff
  by (simp only: set_map set_indices4) blast

lemma all_finite_iff3:
  "shape t = [B, T, C] \<Longrightarrow>
   all_finite t \<longleftrightarrow> (\<forall>b<B. \<forall>t'<T. \<forall>c<C. is_finite (elem t [b, t', c]))"
  unfolding all_finite_def elements_def list_all_iff
  by (simp only: set_map set_indices3) blast

lemma all_finite_iff2:
  "shape t = [B, M] \<Longrightarrow>
   all_finite t \<longleftrightarrow> (\<forall>b<B. \<forall>m<M. is_finite (elem t [b, m]))"
  unfolding all_finite_def elements_def list_all_iff
  by (simp only: set_map set_indices2) blast

lemma is_finite_conv: "is_finite v \<longleftrightarrow> (\<exists>x. v = Fin x)"
  by (cases v) simp_all

section \<open>Predictions that agree on every index\<close>

lemma mode_error_cong_pred:
  assumes "\<And>t c. t < T \<Longrightarrow> c < C \<Longrightarrow> elem p [b, m, t, c] = elem p' [b, m, t, c]"
  shows "mode_error gt p avails T C b m = mode_error gt p' avails T C b m"
  unfolding mode_error_def
  by (intro vsum_cong_upt) (simp add: assms)

lemma nll_reduce_cong_pred:
  assumes sh: "shape p = [B, M, T, C]" "shape p' = [B, M, T, C]" "shape gt = [B, T, C]"
    "shape confidences = [B, M]" "shape avails = [B, T]"
    and eq: "\<And>b m t c. b < B \<Longrightarrow> m < M \<Longrightarrow> t < T \<Longrightarrow> c < C \<Longrightarrow>
      elem p [b, m, t, c] = elem p' [b, m, t, c]"
  shows "nll_reduce gt p confidences avails = nll_reduce gt p' confidences avails"
proof (cases "M = 0")
  case True
  with sh show ?thesis by (simp add: nll_reduce_no_modes)
next
  case False
  then have M: "0 < M" by simp
  have "sample_loss gt p confidences avails M T C b = sample_loss gt p' confidences avails M T C b"
    if "b < B" for b
    unfolding sample_loss_def
    by (rule arg_cong[where f = neg_logsumexp], rule map_cong_upt)
       (simp add: mode_score_def mode_error_cong_pred[of T C p b _ p'] eq that)
  then have "map (sample_loss gt p confidences avails M T C) [0..<B] =
      map (sample_loss gt p' confidences avails M T C) [0..<B]"
    by (intro map_cong_upt)
  then show ?thesis
    unfolding nll_reduce_closed[OF sh(1) sh(3-5) M] nll_reduce_closed[OF sh(2) sh(3-5) M]
    by (rule arg_cong[where f = "\<lambda>xs. Inr (vmean xs)"])
qed

lemma batch_cong_pred:
  assumes sh: "shape p = [B, M, T, C]" "shape p' = [B, M, T, C]"
    and eq: "\<And>b m t c. b < B \<Longrightarrow> m < M \<Longrightarrow> t < T \<Longrightarrow> c < C \<Longrightarrow>
      elem p [b, m, t, c] = elem p' [b, m, t, c]"
  shows "pytorch_neg_multi_log_likelihood_batch gt p confidences avails =
    pytorch_neg_multi_log_likelihood_batch gt p' confidences avails"
proof -
  have fin: "all_finite p = all_finite p'"
    by (simp add: all_finite_iff4[OF sh(1)] all_finite_iff4[OF sh(2)] eq)
  show ?thesis
    unfolding batch_assertions[OF sh(1)] batch_assertions[OF sh(2)] fin
    using nll_reduce_cong_pred[OF sh _ _ _ eq, of gt confidences avails]
    by auto
qed

lemma length3_conv: "length s = 3 \<longleftrightarrow> (\<exists>a b c. s = [a, b, c])"
  by (auto simp: length_Suc_conv eval_nat_numeral)

section \<open>The single-mode loss\<close>

text \<open>
  Claim C9. The single-mode loss is the batch loss at one mode with confidence 1: for a
  prediction \<open>pred\<close> of three dimensions, \<open>pytorch_neg_multi_log_likelihood_single gt pred avails\<close>
  returns what \<open>pytorch_neg_multi_log_likelihood_batch\<close> returns on \<open>gt\<close>, on \<open>pred\<close> with a
  mode dimension of size 1 inserted, on the all-ones \<open>(B, 1)\<close> confidences and on \<open>avails\<close>:
  the same loss, or the same error when the inputs are rejected.
\<close>
theorem single_is_batch_with_one_mode:
  assumes "length (shape pred) = 3"
  shows "pytorch_neg_multi_log_likelihood_single gt pred avails =
    pytorch_neg_multi_log_likelihood_batch gt (with_single_mode pred)
      (all_ones (shape pred ! 0) 1) avails"
proof -
  from assms obtain B T C where sh: "shape pred = [B, T, C]"
    by (auto simp: length3_conv)
  define u where "u = \<lparr>shape = [B, 1, T, C], elem = (\<lambda>idx. elem pred (take 1 idx @ drop (Suc 1) idx))\<rparr>"
  have u: "unsqueeze pred 1 = Inr u"
    by (simp add: unsqueeze_def sh u_def)
  have single: "pytorch_neg_multi_log_likelihood_single gt pred avails =
      pytorch_neg_multi_log_likelihood_batch gt u (all_ones B 1) avails"
    unfolding pytorch_neg_multi_log_likelihood_single_def u rbind_def
    by (simp add: sh new_ones_def all_ones_def)
  have "pytorch_neg_multi_log_likelihood_batch gt u (all_ones B 1) avails =
      pytorch_neg_multi_log_likelihood_batch gt (with_single_mode pred) (all_ones B 1) avails"
    by (rule batch_cong_pred[where B = B and M = 1 and T = T and C = C])
       (simp_all add: u_def with_single_mode_def sh)
  with single show ?thesis by (simp add: sh)
qed

theorem single_is_batch_with_one_mode_witness:
  "length (shape \<lparr>shape = [1, 1, 2], elem = (\<lambda>idx. Fin 3)\<rparr>) = 3 \<and>
   pytorch_neg_multi_log_likelihood_single
     \<lparr>shape = [1, 1, 2], elem = (\<lambda>idx. Fin 0)\<rparr>
     \<lparr>shape = [1, 1, 2], elem = (\<lambda>idx. Fin 3)\<rparr>
     \<lparr>shape = [1, 1], elem = (\<lambda>idx. Fin 1)\<rparr> =
   pytorch_neg_multi_log_likelihood_batch
     \<lparr>shape = [1, 1, 2], elem = (\<lambda>idx. Fin 0)\<rparr>
     (with_single_mode \<lparr>shape = [1, 1, 2], elem = (\<lambda>idx. Fin 3)\<rparr>)
     (all_ones 1 1)
     \<lparr>shape = [1, 1], elem = (\<lambda>idx. Fin 1)\<rparr>"
  using single_is_batch_with_one_mode[of "\<lparr>shape = [1, 1, 2], elem = (\<lambda>idx. Fin 3)\<rparr>"
      "\<lparr>shape = [1, 1, 2], elem = (\<lambda>idx. Fin 0)\<rparr>"
      "\<lparr>shape = [1, 1], elem = (\<lambda>idx. Fin 1)\<rparr>"]
  by simp

section \<open>Arithmetic at particular values\<close>

lemma nearest32_one [simp]: "nearest32 1 = 1"
  using nearest32_int[of 1] by simp

lemma round32_one [simp]: "round32 1 = Fin 1"
  by (rule round32_fix) simp_all

lemma round32_int: "\<bar>k\<bar> < 2 ^ 24 \<Longrightarrow> round32 (of_int k) = Fin (of_int k)"
proof (rule round32_fix)
  assume k: "\<bar>k\<bar> < 2 ^ 24"
  then show "nearest32 (real_of_int k) = real_of_int k" by (rule nearest32_int)
  from k have "real_of_int \<bar>k\<bar> < of_int (2 ^ 24)" by (rule iffD2[OF of_int_less_iff])
  then have "\<bar>real_of_int k\<bar> < 2 ^ 24" by simp
  then show "\<bar>real_of_int k\<bar> < 2 ^ 128" by simp
qed

lemma vsum_Nil [simp]: "vsum [] = Fin 0"
  by (simp add: vsum_def)

lemma vsum_snoc [simp]: "vsum (xs @ [x]) = vadd (vsum xs) x"
  by (simp add: vsum_def)

lemma vsum_single [simp]: "vsum [x] = vadd (Fin 0) x"
  by (simp add: vsum_def)

lemma vsum_pair [simp]: "vsum [x, y] = vadd (vadd (Fin 0) x) y"
  by (simp add: vsum_def)

lemma vsum_triple [simp]: "vsum [x, y, z] = vadd (vadd (vadd (Fin 0) x) y) z"
  by (simp add: vsum_def)

lemma vsum_zeros: "(\<And>x. x \<in> set xs \<Longrightarrow> x = Fin 0) \<Longrightarrow> vsum xs = Fin 0"
proof (induction xs rule: rev_induct)
  case Nil
  show ?case by simp
next
  case (snoc x xs)
  from snoc.prems have "x = Fin 0" by simp
  moreover from snoc have "vsum xs = Fin 0" by simp
  ultimately show ?case by simp
qed

lemma vsum_map_zeros: "(\<And>j. j \<in> set js \<Longrightarrow> f j = Fin 0) \<Longrightarrow> vsum (map f js) = Fin 0"
  by (rule vsum_zeros) auto

lemma veq_refl_Fin [simp]: "veq (Fin a) (Fin a)"
  by simp

lemma isclose_same [simp]: "isclose (Fin a) (Fin a)"
  by (simp add: isclose_def)

lemma neg_logsumexp_zero [simp]: "neg_logsumexp [Fin 0] = Fin 0"
  by (simp add: neg_logsumexp_def vsub_def)

lemma vmean_zero [simp]: "vmean [Fin 0] = Fin 0"
  by (simp add: vmean_def)

section \<open>Rejection of invalid inputs\<close>

lemma mode_error_zero:
  assumes "\<And>t c. t < T \<Longrightarrow> c < C \<Longrightarrow>
    vpow2 (vmul (vsub (elem gt [b, t, c]) (elem pred [b, m, t, c])) (elem avails [b, t])) = Fin 0"
  shows "mode_error gt pred avails T C b m = Fin 0"
  unfolding mode_error_def by (intro vsum_map_zeros) (simp add: assms)

lemma vlog_one [simp]: "vlog (Fin 1) = Fin 0"
  by simp

lemma vsub_zero_zero [simp]: "vsub (Fin 0) (Fin 0) = Fin 0"
  by (simp add: vsub_def)

lemma vmul_zero_right [simp]: "vmul (Fin a) (Fin 0) = Fin 0"
  by simp

lemma vmul_zero_left [simp]: "vmul (Fin 0) (Fin a) = Fin 0"
  by simp

lemma vpow2_zero [simp]: "vpow2 (Fin 0) = Fin 0"
  by (simp add: vpow2_def)

text \<open>
  The shapes of the specification have two coordinates. A prediction of shape \<open>(1, 1, 1, 3)\<close>
  with a ground truth of shape \<open>(1, 1, 3)\<close> does not have them, and
  \<open>pytorch_neg_multi_log_likelihood_batch\<close> accepts it: the assertions compare the shape
  of \<open>gt\<close> with the last dimension of \<open>pred\<close>, whatever it is, and the loss 0 is returned.
\<close>
theorem three_coordinates_are_accepted:
  "\<not> shapes_as_specified
       \<lparr>shape = [1, 1, 3], elem = (\<lambda>idx. Fin 0)\<rparr>
       \<lparr>shape = [1, 1, 1, 3], elem = (\<lambda>idx. Fin 0)\<rparr>
       \<lparr>shape = [1, 1], elem = (\<lambda>idx. Fin 1)\<rparr>
       \<lparr>shape = [1, 1], elem = (\<lambda>idx. Fin 1)\<rparr> \<and>
   pytorch_neg_multi_log_likelihood_batch
       \<lparr>shape = [1, 1, 3], elem = (\<lambda>idx. Fin 0)\<rparr>
       \<lparr>shape = [1, 1, 1, 3], elem = (\<lambda>idx. Fin 0)\<rparr>
       \<lparr>shape = [1, 1], elem = (\<lambda>idx. Fin 1)\<rparr>
       \<lparr>shape = [1, 1], elem = (\<lambda>idx. Fin 1)\<rparr> = Inr (Fin 0)"
proof -
  define g where "g = \<lparr>shape = [1, 1, 3], elem = (\<lambda>idx. Fin 0)\<rparr>"
  define p where "p = \<lparr>shape = [1, 1, 1, 3], elem = (\<lambda>idx. Fin 0)\<rparr>"
  define c where "c = \<lparr>shape = [1, 1], elem = (\<lambda>idx. Fin 1)\<rparr>"
  define a where "a = \<lparr>shape = [1, 1], elem = (\<lambda>idx. Fin 1)\<rparr>"
  have sh: "shape p = [1, 1, 1, 3]" "shape g = [1, 1, 3]" "shape c = [1, 1]" "shape a = [1, 1]"
    by (simp_all add: g_def p_def c_def a_def)
  have v: "inputs_valid g p c a"
    unfolding inputs_valid_def
    by (simp add: shapes_ok_def rows_sum_to_one_def sh all_finite_iff4[OF sh(1)]
        all_finite_iff3[OF sh(2)] all_finite_iff2[OF sh(3)] all_finite_iff2[OF sh(4)])
       (simp add: g_def p_def c_def a_def)
  have e: "mode_error g p a (Suc 0) 3 0 0 = Fin 0"
    by (rule mode_error_zero) (simp add: g_def p_def a_def)
  have "pytorch_neg_multi_log_likelihood_batch g p c a =
      Inr (vmean (map (sample_loss g p c a 1 1 3) [0..<1]))"
    unfolding batch_valid[OF v] by (rule nll_reduce_closed[OF sh]) simp
  also have "\<dots> = Inr (Fin 0)"
    by (simp add: sample_loss_def mode_score_def e) (simp add: c_def)
  finally have "pytorch_neg_multi_log_likelihood_batch g p c a = Inr (Fin 0)" .
  moreover have "\<not> shapes_as_specified g p c a"
    by (simp add: shapes_as_specified_def sh)
  ultimately show ?thesis unfolding g_def p_def c_def a_def by blast
qed

text \<open>
  Claim C4. Whenever the inputs are not valid (\<open>pred\<close> does not have four dimensions, or
  \<open>gt\<close>, \<open>confidences\<close> or \<open>avails\<close> does not have the shape that the shape
  \<open>(B, M, T, C)\<close> of \<open>pred\<close> requires, whatever the number \<open>C\<close> of coordinates, or some
  confidence row does not sum to 1 within the tolerance of \<open>torch.allclose\<close>, or some
  tensor holds a value that is not finite), \<open>pytorch_neg_multi_log_likelihood_batch\<close>
  raises an assertion error and returns no loss.
\<close>
theorem invalid_inputs_rejected:
  assumes "\<not> inputs_valid gt pred confidences avails"
  shows "\<exists>msg s. pytorch_neg_multi_log_likelihood_batch gt pred confidences avails =
     Inl (AssertionError msg s)"
  using assms by (rule batch_invalid)

theorem invalid_inputs_rejected_witness:
  "\<not> inputs_valid \<lparr>shape = [1, 1, 2], elem = (\<lambda>idx. Fin 0)\<rparr>
       \<lparr>shape = [1, 1, 1, 2], elem = (\<lambda>idx. NaN)\<rparr>
       \<lparr>shape = [1, 1], elem = (\<lambda>idx. Fin 1)\<rparr>
       \<lparr>shape = [1, 1], elem = (\<lambda>idx. Fin 1)\<rparr> \<and>
   (\<exists>msg s. pytorch_neg_multi_log_likelihood_batch \<lparr>shape = [1, 1, 2], elem = (\<lambda>idx. Fin 0)\<rparr>
       \<lparr>shape = [1, 1, 1, 2], elem = (\<lambda>idx. NaN)\<rparr>
       \<lparr>shape = [1, 1], elem = (\<lambda>idx. Fin 1)\<rparr>
       \<lparr>shape = [1, 1], elem = (\<lambda>idx. Fin 1)\<rparr> = Inl (AssertionError msg s))"
proof -
  have inv: "\<not> inputs_valid \<lparr>shape = [1, 1, 2], elem = (\<lambda>idx. Fin 0)\<rparr>
       \<lparr>shape = [1, 1, 1, 2], elem = (\<lambda>idx. NaN)\<rparr>
       \<lparr>shape = [1, 1], elem = (\<lambda>idx. Fin 1)\<rparr>
       \<lparr>shape = [1, 1], elem = (\<lambda>idx. Fin 1)\<rparr>"
  proof -
    have "\<exists>c::nat. c < 2" by (rule exI[of _ 0]) simp
    then have "\<not> all_finite \<lparr>shape = [1, 1, 1, 2], elem = (\<lambda>idx. NaN)\<rparr>"
      by (simp add: all_finite_iff4[where B = 1 and M = 1 and T = 1 and C = 2])
    then show ?thesis by (simp add: inputs_valid_def)
  qed
  from inv invalid_inputs_rejected[OF inv] show ?thesis by blast
qed

section \<open>The width of the head\<close>

lemma init_fields:
  assumes "LyftMultiModel_init cfg n env = Inr m"
  shows "in_features (head m) = backbone_out_features (model_architecture cfg)"
    "out_features (head m) = 4096" "in_features (logit m) = 4096"
    "out_features (logit m) = 2 * future_num_frames cfg * n + n"
    "future_len m = future_num_frames cfg" "num_preds m = 2 * future_num_frames cfg * n"
    "num_modes m = n"
  using assms by (auto simp add: LyftMultiModel_init_def Let_def split: if_splits)

lemma forward_width_mismatch:
  assumes "backbone m x = Inr f" and "shape f = [B, w]" and "w \<noteq> in_features (head m)"
  shows "LyftMultiModel_forward m x = Inl RuntimeError"
  unfolding LyftMultiModel_forward_def assms(1) rbind_def sum.case
  using assms(2,3) by (simp add: linear_forward_def)

text \<open>
  Claim C8. For \<open>resnet101\<close>, one of the architectures the file imports, the constructor
  succeeds and gives the head 512 input features, while the features of that backbone
  have width 2048; the mismatch is raised by \<open>forward\<close>, as a RuntimeError of the head.
\<close>
theorem resnet101_head_is_too_narrow:
  "(\<exists>m. LyftMultiModel_init
       \<lparr>model_architecture = ''resnet101'', history_num_frames = 10, future_num_frames = 50\<rparr> 3
       \<lparr>torchvision = (\<lambda>architecture channels x.
           Inr \<lparr>shape = [1, resnet_feature_width architecture], elem = (\<lambda>idx. Fin 0)\<rparr>),
        head_weight = (\<lambda>out i. Fin 0), head_bias = (\<lambda>out. Fin 0),
        logit_weight = (\<lambda>out i. Fin 0), logit_bias = (\<lambda>out. Fin 0)\<rparr> = Inr m \<and>
     in_features (head m) = 512 \<and>
     LyftMultiModel_forward m \<lparr>shape = [1, 25, 224, 224], elem = (\<lambda>idx. Fin 0)\<rparr> =
       Inl RuntimeError) \<and>
   backbone_out_features ''resnet101'' = 512 \<and>
   resnet_feature_width ''resnet101'' = 2048"
proof -
  define m where "m =
    \<lparr>backbone = (\<lambda>x. Inr \<lparr>shape = [1, resnet_feature_width ''resnet101''], elem = (\<lambda>idx. Fin 0)\<rparr>),
     head = \<lparr>in_features = 512, out_features = 4096,
              weight = (\<lambda>out i. Fin 0), bias = (\<lambda>out. Fin 0)\<rparr>,
     logit = \<lparr>in_features = 4096, out_features = 303,
               weight = (\<lambda>out i. Fin 0), bias = (\<lambda>out. Fin 0)\<rparr>,
     future_len = 50, num_preds = 300, num_modes = 3\<rparr>"
  have init: "LyftMultiModel_init
       \<lparr>model_architecture = ''resnet101'', history_num_frames = 10, future_num_frames = 50\<rparr> 3
       \<lparr>torchvision = (\<lambda>architecture channels x.
           Inr \<lparr>shape = [1, resnet_feature_width architecture], elem = (\<lambda>idx. Fin 0)\<rparr>),
        head_weight = (\<lambda>out i. Fin 0), head_bias = (\<lambda>out. Fin 0),
        logit_weight = (\<lambda>out i. Fin 0), logit_bias = (\<lambda>out. Fin 0)\<rparr> = Inr m"
    by (simp add: LyftMultiModel_init_def m_def imported_resnets_def
        backbone_out_features_def Let_def)
  have w: "resnet_feature_width ''resnet101'' = 2048"
    by (simp add: resnet_feature_width_def)
  have "LyftMultiModel_forward m \<lparr>shape = [1, 25, 224, 224], elem = (\<lambda>idx. Fin 0)\<rparr> =
      Inl RuntimeError"
    by (rule forward_width_mismatch[where f = "\<lparr>shape = [1, 2048], elem = (\<lambda>idx. Fin 0)\<rparr>"
          and B = 1 and w = 2048])
       (simp_all add: m_def w)
  moreover have "in_features (head m) = 512" by (simp add: m_def)
  moreover have "backbone_out_features ''resnet101'' = 512"
    by (simp add: backbone_out_features_def)
  ultimately show ?thesis using init w by blast
qed

section \<open>Values of float32\<close>

lemma is_float32_round32 [simp]: "is_float32 (round32 x)"
  using round32_cases[of x] round32_idem[of x] by (cases "round32 x") auto

lemma is_float32_vadd [simp]: "is_float32 (vadd a b)"
  by (cases a; cases b) simp_all

lemma is_float32_vneg [simp]: "is_float32 (vneg a) = is_float32 a"
proof (cases a)
  case (Fin x)
  have "round32 (- y) = Fin (- y) \<longleftrightarrow> round32 y = Fin y" for y
    by (cases "round32 y") (simp_all add: round32_minus)
  with Fin show ?thesis by simp
qed simp_all

lemma is_float32_zero [simp]: "is_float32 (Fin 0)"
  by simp

lemma is_float32_one [simp]: "is_float32 (Fin 1)"
  by simp

lemma is_float32_vsub [simp]: "is_float32 (vsub a b)"
  by (simp add: vsub_def)

lemma is_float32_inf_of_sign [simp]: "is_float32 (inf_of_sign s)"
  by (simp add: inf_of_sign_def)

lemma is_float32_vmul [simp]: "is_float32 (vmul a b)"
  by (cases a; cases b) simp_all

lemma is_float32_vpow2 [simp]: "is_float32 (vpow2 a)"
  by (simp add: vpow2_def)

lemma is_float32_vdiv [simp]: "is_float32 (vdiv a b)"
  by (cases a; cases b) simp_all


lemma is_float32_vexp [simp]: "is_float32 (vexp a)"
  by (cases a) simp_all

lemma vadd_zero_right: "is_float32 a \<Longrightarrow> vadd a (Fin 0) = a"
  by (cases a) simp_all


lemma vmul_one_right: "is_float32 a \<Longrightarrow> vmul a (Fin 1) = a"
  by (cases a) (simp_all add: inf_of_sign_def)

lemma is_float32_vsum [simp]: "is_float32 (vsum xs)"
  by (induction xs rule: rev_induct) simp_all

lemma vsum_map_NaN:
  assumes "js \<noteq> []" "\<And>j. j \<in> set js \<Longrightarrow> f j = NaN"
  shows "vsum (map f js) = NaN"
  using assms
proof (induction js rule: rev_induct)
  case Nil
  then show ?case by simp
next
  case (snoc j js)
  have "f j = NaN" by (rule snoc.prems(2)) simp
  then show ?case by (cases "vsum (map f js)") simp_all
qed

lemma is_finite_round32:
  assumes "\<bar>x\<bar> \<le> 2 ^ 127"
  shows "is_finite (round32 x)"
proof -
  have p: "(2::real) powi 127 = 2 ^ 127" by (simp add: power_int_numeral)
  have "nearest32 (2 ^ 127) = 2 ^ 127" "nearest32 (- (2 ^ 127)) = - (2 ^ 127)"
    using nearest32_powi[of 127] nearest32_minus_powi[of 127] unfolding p by simp_all
  from round32_between(1)[OF this(2) this(1), of x] assms
  have "round32 x = Fin (nearest32 x)" by (simp add: abs_le_iff)
  then show ?thesis by simp
qed

section \<open>Masked timesteps\<close>

lemma nll_reduce_cong_error:
  assumes sh: "shape p = [B, M, T, C]" "shape p' = [B, M, T, C]" "shape gt = [B, T, C]"
    "shape confidences = [B, M]" "shape avails = [B, T]"
    and eq: "\<And>b m. b < B \<Longrightarrow> m < M \<Longrightarrow>
      mode_error gt p avails T C b m = mode_error gt p' avails T C b m"
  shows "nll_reduce gt p confidences avails = nll_reduce gt p' confidences avails"
proof (cases "M = 0")
  case True
  with sh show ?thesis by (simp add: nll_reduce_no_modes)
next
  case False
  then have M: "0 < M" by simp
  have "sample_loss gt p confidences avails M T C b = sample_loss gt p' confidences avails M T C b"
    if "b < B" for b
    unfolding sample_loss_def
    by (rule arg_cong[where f = neg_logsumexp], rule map_cong_upt)
       (simp add: mode_score_def eq that)
  then have "map (sample_loss gt p confidences avails M T C) [0..<B] =
      map (sample_loss gt p' confidences avails M T C) [0..<B]"
    by (intro map_cong_upt)
  then show ?thesis
    unfolding nll_reduce_closed[OF sh(1) sh(3-5) M] nll_reduce_closed[OF sh(2) sh(3-5) M]
    by (rule arg_cong[where f = "\<lambda>xs. Inr (vmean xs)"])
qed

lemma masked_term:
  assumes "a = Fin 0 \<and> is_finite (vsub g x) \<and> is_finite (vsub g y) \<or> x = y"
  shows "vpow2 (vmul (vsub g x) a) = vpow2 (vmul (vsub g y) a)"
  using assms by (cases "vsub g x"; cases "vsub g y") auto

lemma batch_masked:
  assumes v: "inputs_valid gt pred confidences avails"
    and v': "inputs_valid gt pred' confidences avails"
    and d: "differ_only_where_unavailable avails pred pred'"
    and n: "no_overflow_where_unavailable gt pred avails"
    and n': "no_overflow_where_unavailable gt pred' avails"
  shows "pytorch_neg_multi_log_likelihood_batch gt pred confidences avails =
    pytorch_neg_multi_log_likelihood_batch gt pred' confidences avails"
proof -
  from v have "shapes_ok gt pred confidences avails" by (simp add: inputs_valid_def)
  then obtain B M T C where sh: "shape pred = [B, M, T, C]" "shape gt = [B, T, C]"
    "shape confidences = [B, M]" "shape avails = [B, T]" by (rule shapes_okD)
  from v' have "shapes_ok gt pred' confidences avails" by (simp add: inputs_valid_def)
  then obtain B' M' T' C' where sh': "shape pred' = [B', M', T', C']" "shape gt = [B', T', C']"
    "shape confidences = [B', M']" by (rule shapes_okD)
  with sh have sp': "shape pred' = [B, M, T, C]" by simp
  have tm: "vpow2 (vmul (vsub (elem gt [b, t, c]) (elem pred [b, m, t, c])) (elem avails [b, t])) =
       vpow2 (vmul (vsub (elem gt [b, t, c]) (elem pred' [b, m, t, c])) (elem avails [b, t]))"
    if "b < B" "m < M" "t < T" "c < C" for b m t c
  proof -
    from that have i: "[b, m, t, c] \<in> set (indices [B, M, T, C])"
      unfolding set_indices4 by blast
    from d i have "elem avails [b, t] = Fin 0 \<or> elem pred [b, m, t, c] = elem pred' [b, m, t, c]"
      unfolding differ_only_where_unavailable_def list_all_iff sh by fastforce
    moreover from n i have "elem avails [b, t] = Fin 0 \<longrightarrow>
        is_finite (vsub (elem gt [b, t, c]) (elem pred [b, m, t, c]))"
      unfolding no_overflow_where_unavailable_def list_all_iff sh by fastforce
    moreover from n' i have "elem avails [b, t] = Fin 0 \<longrightarrow>
        is_finite (vsub (elem gt [b, t, c]) (elem pred' [b, m, t, c]))"
      unfolding no_overflow_where_unavailable_def list_all_iff sp' by fastforce
    ultimately show ?thesis by (intro masked_term) blast
  qed
  have "mode_error gt pred avails T C b m = mode_error gt pred' avails T C b m"
    if "b < B" "m < M" for b m
    unfolding mode_error_def by (intro vsum_cong_upt tm that)
  then have "nll_reduce gt pred confidences avails = nll_reduce gt pred' confidences avails"
    by (intro nll_reduce_cong_error[OF sh(1) sp' sh(2-4)])
  with v v' show ?thesis by (simp add: batch_valid)
qed

section \<open>Rounding at particular values\<close>

lemma round32_numeral [simp]:
  "numeral n < (2 ^ 24 :: int) \<Longrightarrow> round32 (numeral n) = Fin (numeral n)"
  using round32_int[of "numeral n"] by simp

lemma round32_neg_numeral [simp]:
  "numeral n < (2 ^ 24 :: int) \<Longrightarrow> round32 (- numeral n) = Fin (- numeral n)"
  using round32_int[of "- numeral n"] by simp

lemma round32_minus_one [simp]: "round32 (- 1) = Fin (- 1)"
  using round32_int[of "- 1"] by simp

lemma upt_2: "[0..<2] = [0, 1]"
  by (simp add: numeral_2_eq_2)

lemma round32_big:
  assumes "x = 2 ^ 127"
  shows "round32 x = Fin x" "round32 (- x) = Fin (- x)"
proof -
  have p: "(2::real) powi 127 = x" by (simp add: assms power_int_numeral)
  have n: "nearest32 x = x" "nearest32 (- x) = - x"
    using nearest32_powi[of 127] nearest32_minus_powi[of 127] unfolding p by simp_all
  have "\<bar>x\<bar> < 2 ^ 128" by (simp add: assms)
  then show "round32 x = Fin x" "round32 (- x) = Fin (- x)"
    using n by (simp_all add: round32_fix)
qed

lemma vsub_overflow:
  assumes "x = 2 ^ 127"
  shows "vsub (Fin (- x)) (Fin x) = NInf"
proof -
  have e: "- x + - x = - (2 powi 128)" by (simp add: assms power_int_numeral)
  have n: "nearest32 (- (2 powi 128)) = - (2 powi 128)"
    by (rule nearest32_minus_powi) simp
  have "round32 (- (2 powi 128)) = NInf"
    unfolding round32_def n Let_def by (simp add: power_int_numeral)
  then show ?thesis
    unfolding vsub_def vneg.simps vadd.simps e .
qed

section \<open>Availability masks\<close>

text \<open>
  With a ground truth of \<open>-2\<^sup>1\<^sup>2\<^sup>7\<close> at a timestep of availability 0, the prediction
  \<open>2\<^sup>1\<^sup>2\<^sup>7\<close> makes the difference overflow to minus infinity, which multiplied by the
  availability 0 is NaN: the loss is NaN. With the prediction 0 at that timestep the loss
  is 0. Both inputs pass the assertions and the predictions differ only where the
  availability is 0.
\<close>
theorem masked_overflow_changes_the_loss:
  "inputs_valid
     \<lparr>shape = [1, 1, 1], elem = (\<lambda>idx. Fin (- (2 ^ 127)))\<rparr>
     \<lparr>shape = [1, 1, 1, 1], elem = (\<lambda>idx. Fin (2 ^ 127))\<rparr>
     \<lparr>shape = [1, 1], elem = (\<lambda>idx. Fin 1)\<rparr>
     \<lparr>shape = [1, 1], elem = (\<lambda>idx. Fin 0)\<rparr> \<and>
   inputs_valid
     \<lparr>shape = [1, 1, 1], elem = (\<lambda>idx. Fin (- (2 ^ 127)))\<rparr>
     \<lparr>shape = [1, 1, 1, 1], elem = (\<lambda>idx. Fin 0)\<rparr>
     \<lparr>shape = [1, 1], elem = (\<lambda>idx. Fin 1)\<rparr>
     \<lparr>shape = [1, 1], elem = (\<lambda>idx. Fin 0)\<rparr> \<and>
   differ_only_where_unavailable
     \<lparr>shape = [1, 1], elem = (\<lambda>idx. Fin 0)\<rparr>
     \<lparr>shape = [1, 1, 1, 1], elem = (\<lambda>idx. Fin (2 ^ 127))\<rparr>
     \<lparr>shape = [1, 1, 1, 1], elem = (\<lambda>idx. Fin 0)\<rparr> \<and>
   pytorch_neg_multi_log_likelihood_batch
     \<lparr>shape = [1, 1, 1], elem = (\<lambda>idx. Fin (- (2 ^ 127)))\<rparr>
     \<lparr>shape = [1, 1, 1, 1], elem = (\<lambda>idx. Fin (2 ^ 127))\<rparr>
     \<lparr>shape = [1, 1], elem = (\<lambda>idx. Fin 1)\<rparr>
     \<lparr>shape = [1, 1], elem = (\<lambda>idx. Fin 0)\<rparr> = Inr NaN \<and>
   pytorch_neg_multi_log_likelihood_batch
     \<lparr>shape = [1, 1, 1], elem = (\<lambda>idx. Fin (- (2 ^ 127)))\<rparr>
     \<lparr>shape = [1, 1, 1, 1], elem = (\<lambda>idx. Fin 0)\<rparr>
     \<lparr>shape = [1, 1], elem = (\<lambda>idx. Fin 1)\<rparr>
     \<lparr>shape = [1, 1], elem = (\<lambda>idx. Fin 0)\<rparr> = Inr (Fin 0)"
proof -
  define x :: real where "x = 2 ^ 127"
  define g where "g = \<lparr>shape = [1, 1, 1], elem = (\<lambda>idx. Fin (- x))\<rparr>"
  define p where "p = \<lparr>shape = [1, 1, 1, 1], elem = (\<lambda>idx. Fin x)\<rparr>"
  define p' where "p' = \<lparr>shape = [1, 1, 1, 1], elem = (\<lambda>idx. Fin 0)\<rparr>"
  define c where "c = \<lparr>shape = [1, 1], elem = (\<lambda>idx. Fin 1)\<rparr>"
  define a where "a = \<lparr>shape = [1, 1], elem = (\<lambda>idx. Fin 0)\<rparr>"
  have sh: "shape p = [1, 1, 1, 1]" "shape g = [1, 1, 1]" "shape c = [1, 1]" "shape a = [1, 1]"
    and sh': "shape p' = [1, 1, 1, 1]"
    by (simp_all add: g_def p_def p'_def c_def a_def)
  have v: "inputs_valid g p c a"
    unfolding inputs_valid_def
    by (simp add: shapes_ok_def rows_sum_to_one_def sh all_finite_iff4[OF sh(1)]
        all_finite_iff3[OF sh(2)] all_finite_iff2[OF sh(3)] all_finite_iff2[OF sh(4)])
       (simp add: g_def p_def c_def a_def)
  have v': "inputs_valid g p' c a"
    unfolding inputs_valid_def
    by (simp add: shapes_ok_def rows_sum_to_one_def sh sh' all_finite_iff4[OF sh']
        all_finite_iff3[OF sh(2)] all_finite_iff2[OF sh(3)] all_finite_iff2[OF sh(4)])
       (simp add: g_def p'_def c_def a_def)
  have d: "differ_only_where_unavailable a p p'"
    by (simp add: differ_only_where_unavailable_def sh) (simp add: a_def)
  have e: "mode_error g p a (Suc 0) (Suc 0) 0 0 = NaN"
    by (simp add: mode_error_def g_def p_def a_def vsub_overflow[OF x_def] inf_of_sign_def vpow2_def)
  have e': "mode_error g p' a (Suc 0) (Suc 0) 0 0 = Fin 0"
    by (rule mode_error_zero)
       (simp add: g_def p'_def a_def vsub_def round32_big[OF x_def])
  have "pytorch_neg_multi_log_likelihood_batch g p c a =
      Inr (vmean (map (sample_loss g p c a 1 1 1) [0..<1]))"
    unfolding batch_valid[OF v] by (rule nll_reduce_closed[OF sh]) simp
  also have "\<dots> = Inr NaN"
    by (simp add: sample_loss_def mode_score_def e neg_logsumexp_def vsub_def vmean_def c_def)
  finally have l: "pytorch_neg_multi_log_likelihood_batch g p c a = Inr NaN" .
  have "pytorch_neg_multi_log_likelihood_batch g p' c a =
      Inr (vmean (map (sample_loss g p' c a 1 1 1) [0..<1]))"
    unfolding batch_valid[OF v'] by (rule nll_reduce_closed[OF sh' sh(2-4)]) simp
  also have "\<dots> = Inr (Fin 0)"
    by (simp add: sample_loss_def mode_score_def e') (simp add: c_def)
  finally have l': "pytorch_neg_multi_log_likelihood_batch g p' c a = Inr (Fin 0)" .
  from v v' d l l' show ?thesis
    unfolding g_def p_def p'_def c_def a_def x_def by blast
qed

text \<open>
  Claim C1, amended. A timestep whose availability is 0 contributes nothing to the loss
  as long as the difference \<open>gt - pred\<close> does not overflow there: for two valid inputs
  that share \<open>gt\<close>, \<open>confidences\<close> and \<open>avails\<close>, whose predictions differ only at
  timesteps of availability 0 and whose differences \<open>gt - pred\<close> are finite at those
  timesteps, \<open>pytorch_neg_multi_log_likelihood_batch\<close> returns the same loss. The
  availabilities may be any finite values, in particular 0 and 1.
\<close>
theorem masked_steps_do_not_contribute:
  assumes "inputs_valid gt pred confidences avails"
    and "inputs_valid gt pred' confidences avails"
    and "differ_only_where_unavailable avails pred pred'"
    and "no_overflow_where_unavailable gt pred avails"
    and "no_overflow_where_unavailable gt pred' avails"
  shows "pytorch_neg_multi_log_likelihood_batch gt pred confidences avails =
    pytorch_neg_multi_log_likelihood_batch gt pred' confidences avails"
  using assms by (rule batch_masked)

lemma masked_example_valid:
  "inputs_valid \<lparr>shape = [1, 2, 1], elem = (\<lambda>idx. Fin 0)\<rparr>
     \<lparr>shape = [1, 1, 2, 1], elem = (\<lambda>idx. Fin 0)\<rparr>
     \<lparr>shape = [1, 1], elem = (\<lambda>idx. Fin 1)\<rparr>
     \<lparr>shape = [1, 2], elem = (\<lambda>idx. if idx = [0, 1] then Fin 0 else Fin 1)\<rparr>"
  by (simp add: inputs_valid_def shapes_ok_def rows_sum_to_one_def all_finite_def elements_def upt_2)

lemma masked_example_valid':
  "inputs_valid \<lparr>shape = [1, 2, 1], elem = (\<lambda>idx. Fin 0)\<rparr>
     \<lparr>shape = [1, 1, 2, 1], elem = (\<lambda>idx. if idx = [0, 0, 1, 0] then Fin 7 else Fin 0)\<rparr>
     \<lparr>shape = [1, 1], elem = (\<lambda>idx. Fin 1)\<rparr>
     \<lparr>shape = [1, 2], elem = (\<lambda>idx. if idx = [0, 1] then Fin 0 else Fin 1)\<rparr>"
  by (simp add: inputs_valid_def shapes_ok_def rows_sum_to_one_def all_finite_def elements_def upt_2)

lemma masked_example_differ:
  "differ_only_where_unavailable
     \<lparr>shape = [1, 2], elem = (\<lambda>idx. if idx = [0, 1] then Fin 0 else Fin 1)\<rparr>
     \<lparr>shape = [1, 1, 2, 1], elem = (\<lambda>idx. Fin 0)\<rparr>
     \<lparr>shape = [1, 1, 2, 1], elem = (\<lambda>idx. if idx = [0, 0, 1, 0] then Fin 7 else Fin 0)\<rparr>"
  by (simp add: differ_only_where_unavailable_def upt_2)

lemma masked_example_no_overflow:
  "no_overflow_where_unavailable
     \<lparr>shape = [1, 2, 1], elem = (\<lambda>idx. Fin 0)\<rparr>
     \<lparr>shape = [1, 1, 2, 1], elem = (\<lambda>idx. Fin 0)\<rparr>
     \<lparr>shape = [1, 2], elem = (\<lambda>idx. if idx = [0, 1] then Fin 0 else Fin 1)\<rparr>"
  by (simp add: no_overflow_where_unavailable_def upt_2)

lemma masked_example_no_overflow':
  "no_overflow_where_unavailable
     \<lparr>shape = [1, 2, 1], elem = (\<lambda>idx. Fin 0)\<rparr>
     \<lparr>shape = [1, 1, 2, 1], elem = (\<lambda>idx. if idx = [0, 0, 1, 0] then Fin 7 else Fin 0)\<rparr>
     \<lparr>shape = [1, 2], elem = (\<lambda>idx. if idx = [0, 1] then Fin 0 else Fin 1)\<rparr>"
  by (simp add: no_overflow_where_unavailable_def upt_2 vsub_def)

theorem masked_steps_do_not_contribute_witness:
  "differ_only_where_unavailable
     \<lparr>shape = [1, 2], elem = (\<lambda>idx. if idx = [0, 1] then Fin 0 else Fin 1)\<rparr>
     \<lparr>shape = [1, 1, 2, 1], elem = (\<lambda>idx. Fin 0)\<rparr>
     \<lparr>shape = [1, 1, 2, 1], elem = (\<lambda>idx. if idx = [0, 0, 1, 0] then Fin 7 else Fin 0)\<rparr> \<and>
   no_overflow_where_unavailable
     \<lparr>shape = [1, 2, 1], elem = (\<lambda>idx. Fin 0)\<rparr>
     \<lparr>shape = [1, 1, 2, 1], elem = (\<lambda>idx. if idx = [0, 0, 1, 0] then Fin 7 else Fin 0)\<rparr>
     \<lparr>shape = [1, 2], elem = (\<lambda>idx. if idx = [0, 1] then Fin 0 else Fin 1)\<rparr> \<and>
   pytorch_neg_multi_log_likelihood_batch
     \<lparr>shape = [1, 2, 1], elem = (\<lambda>idx. Fin 0)\<rparr>
     \<lparr>shape = [1, 1, 2, 1], elem = (\<lambda>idx. Fin 0)\<rparr>
     \<lparr>shape = [1, 1], elem = (\<lambda>idx. Fin 1)\<rparr>
     \<lparr>shape = [1, 2], elem = (\<lambda>idx. if idx = [0, 1] then Fin 0 else Fin 1)\<rparr> =
   pytorch_neg_multi_log_likelihood_batch
     \<lparr>shape = [1, 2, 1], elem = (\<lambda>idx. Fin 0)\<rparr>
     \<lparr>shape = [1, 1, 2, 1], elem = (\<lambda>idx. if idx = [0, 0, 1, 0] then Fin 7 else Fin 0)\<rparr>
     \<lparr>shape = [1, 1], elem = (\<lambda>idx. Fin 1)\<rparr>
     \<lparr>shape = [1, 2], elem = (\<lambda>idx. if idx = [0, 1] then Fin 0 else Fin 1)\<rparr>"
  using masked_steps_do_not_contribute[OF masked_example_valid masked_example_valid'
      masked_example_differ masked_example_no_overflow masked_example_no_overflow']
    masked_example_differ masked_example_no_overflow' by blast

section \<open>The weight of a timestep in the raw error\<close>

lemma is_finite_vpow2D: "is_finite (vpow2 d) \<Longrightarrow> is_finite d"
  by (cases d) (simp_all add: vpow2_def inf_of_sign_def)

lemma mask_term:
  assumes "a = Fin 1 \<or> a = Fin 0 \<and> is_finite (vpow2 (vsub g x))"
  shows "vpow2 (vmul (vsub g x) a) = vmul (vpow2 (vsub g x)) a"
  using assms
proof
  assume "a = Fin 1"
  then show ?thesis by (simp add: vmul_one_right)
next
  assume a: "a = Fin 0 \<and> is_finite (vpow2 (vsub g x))"
  then have "is_finite (vsub g x)" by (rule is_finite_vpow2D[OF conjunct2])
  then obtain d where d: "vsub g x = Fin d" by (cases "vsub g x") simp_all
  from a obtain q where q: "vpow2 (vsub g x) = Fin q" by (cases "vpow2 (vsub g x)") simp_all
  show ?thesis unfolding q unfolding d using a by simp
qed

lemma raw_error_weights:
  assumes v: "inputs_valid gt pred confidences avails" and sh: "shape pred = [B, M, T, C]"
  shows "\<exists>r. raw_error gt pred avails = Inr r \<and> shape r = [B, M] \<and>
     (\<forall>b m. b < B \<longrightarrow> m < M \<longrightarrow>
        elem r [b, m] = mode_error gt pred avails T C b m \<and>
        (availability_is_mask gt pred avails T C b m \<longrightarrow>
           elem r [b, m] = availability_weighted_error gt pred avails T C b m))"
proof -
  from v have "shapes_ok gt pred confidences avails" by (simp add: inputs_valid_def)
  with sh have shs: "shape gt = [B, T, C]" "shape avails = [B, T]"
    by (simp_all add: shapes_ok_def)
  from raw_error_closed[OF sh shs] obtain r where
    r: "raw_error gt pred avails = Inr r" "shape r = [B, M]"
      "\<And>b m. b < B \<Longrightarrow> m < M \<Longrightarrow> elem r [b, m] = mode_error gt pred avails T C b m" by blast
  have bin: "mode_error gt pred avails T C b m =
      availability_weighted_error gt pred avails T C b m"
    if "availability_is_mask gt pred avails T C b m" for b m
    unfolding availability_weighted_error_def mode_error_def
  proof (intro vsum_cong_upt)
    fix t c assume tc: "t < T" "c < C"
    from that tc have "elem avails [b, t] = Fin 1 \<or> elem avails [b, t] = Fin 0 \<and>
        is_finite (vpow2 (vsub (elem gt [b, t, c]) (elem pred [b, m, t, c])))"
      unfolding availability_is_mask_def list_all_iff by auto
    then show "vpow2 (vmul (vsub (elem gt [b, t, c]) (elem pred [b, m, t, c])) (elem avails [b, t])) =
        vmul (vpow2 (vsub (elem gt [b, t, c]) (elem pred [b, m, t, c]))) (elem avails [b, t])"
      by (rule mask_term)
  qed
  from r bin show ?thesis by auto
qed

text \<open>
  With a ground truth of 0, a prediction of 2 and an availability of \<open>1 / 2\<close> the raw error
  is \<open>((0 - 2) * 1 / 2)\<^sup>2 = 1\<close>, and the squared error weighted by the availability is
  \<open>(0 - 2)\<^sup>2 * 1 / 2 = 2\<close>. No operation rounds at these values.
\<close>
theorem raw_error_is_not_weighted_by_availability:
  "(\<exists>r. raw_error \<lparr>shape = [1, 1, 1], elem = (\<lambda>idx. Fin 0)\<rparr>
       \<lparr>shape = [1, 1, 1, 1], elem = (\<lambda>idx. Fin 2)\<rparr>
       \<lparr>shape = [1, 1], elem = (\<lambda>idx. Fin (1 / 2))\<rparr> = Inr r \<and> shape r = [1, 1] \<and>
     elem r [0, 0] = Fin 1) \<and>
   availability_weighted_error \<lparr>shape = [1, 1, 1], elem = (\<lambda>idx. Fin 0)\<rparr>
       \<lparr>shape = [1, 1, 1, 1], elem = (\<lambda>idx. Fin 2)\<rparr>
       \<lparr>shape = [1, 1], elem = (\<lambda>idx. Fin (1 / 2))\<rparr> 1 1 0 0 = Fin 2"
proof -
  from raw_error_closed[of "\<lparr>shape = [1, 1, 1, 1], elem = (\<lambda>idx. Fin 2)\<rparr>" 1 1 1 1
      "\<lparr>shape = [1, 1, 1], elem = (\<lambda>idx. Fin 0)\<rparr>"
      "\<lparr>shape = [1, 1], elem = (\<lambda>idx. Fin (1 / 2))\<rparr>"]
  obtain r where r: "raw_error \<lparr>shape = [1, 1, 1], elem = (\<lambda>idx. Fin 0)\<rparr>
       \<lparr>shape = [1, 1, 1, 1], elem = (\<lambda>idx. Fin 2)\<rparr>
       \<lparr>shape = [1, 1], elem = (\<lambda>idx. Fin (1 / 2))\<rparr> = Inr r" "shape r = [1, 1]"
    "elem r [0, 0] = mode_error \<lparr>shape = [1, 1, 1], elem = (\<lambda>idx. Fin 0)\<rparr>
       \<lparr>shape = [1, 1, 1, 1], elem = (\<lambda>idx. Fin 2)\<rparr>
       \<lparr>shape = [1, 1], elem = (\<lambda>idx. Fin (1 / 2))\<rparr> 1 1 0 0"
    by auto
  have "mode_error \<lparr>shape = [1, 1, 1], elem = (\<lambda>idx. Fin 0)\<rparr>
       \<lparr>shape = [1, 1, 1, 1], elem = (\<lambda>idx. Fin 2)\<rparr>
       \<lparr>shape = [1, 1], elem = (\<lambda>idx. Fin (1 / 2))\<rparr> 1 1 0 0 = Fin 1"
    by (simp add: mode_error_def vsub_def vpow2_def)
  with r have "\<exists>r. raw_error \<lparr>shape = [1, 1, 1], elem = (\<lambda>idx. Fin 0)\<rparr>
       \<lparr>shape = [1, 1, 1, 1], elem = (\<lambda>idx. Fin 2)\<rparr>
       \<lparr>shape = [1, 1], elem = (\<lambda>idx. Fin (1 / 2))\<rparr> = Inr r \<and> shape r = [1, 1] \<and>
     elem r [0, 0] = Fin 1" by auto
  moreover have "availability_weighted_error \<lparr>shape = [1, 1, 1], elem = (\<lambda>idx. Fin 0)\<rparr>
       \<lparr>shape = [1, 1, 1, 1], elem = (\<lambda>idx. Fin 2)\<rparr>
       \<lparr>shape = [1, 1], elem = (\<lambda>idx. Fin (1 / 2))\<rparr> 1 1 0 0 = Fin 2"
    by (simp add: availability_weighted_error_def vsub_def vpow2_def)
  ultimately show ?thesis by blast
qed

text \<open>
  Claim C6, amended. For every valid input the raw error of mode \<open>m\<close> of sample \<open>b\<close> is the
  sum over time and coordinates of the square of \<open>(gt - pred) * avails\<close>, in float32: the
  availability is inside the square. It is the squared error multiplied by the
  availability itself when the availabilities of the sample are masks: each is 1, or 0 at
  a timestep where the squared error does not overflow.
\<close>
theorem raw_error_squares_the_masked_difference:
  assumes "inputs_valid gt pred confidences avails" and "shape pred = [B, M, T, C]"
  shows "\<exists>r. raw_error gt pred avails = Inr r \<and> shape r = [B, M] \<and>
     (\<forall>b m. b < B \<longrightarrow> m < M \<longrightarrow>
        elem r [b, m] = mode_error gt pred avails T C b m \<and>
        (availability_is_mask gt pred avails T C b m \<longrightarrow>
           elem r [b, m] = availability_weighted_error gt pred avails T C b m))"
  using assms by (rule raw_error_weights)

lemma weights_example_valid:
  "inputs_valid \<lparr>shape = [1, 1, 1], elem = (\<lambda>idx. Fin 0)\<rparr>
       \<lparr>shape = [1, 1, 1, 1], elem = (\<lambda>idx. Fin 2)\<rparr>
       \<lparr>shape = [1, 1], elem = (\<lambda>idx. Fin 1)\<rparr>
       \<lparr>shape = [1, 1], elem = (\<lambda>idx. Fin 1)\<rparr>"
  by (simp add: inputs_valid_def shapes_ok_def rows_sum_to_one_def all_finite_def elements_def)

theorem raw_error_squares_the_masked_difference_witness:
  "inputs_valid \<lparr>shape = [1, 1, 1], elem = (\<lambda>idx. Fin 0)\<rparr>
       \<lparr>shape = [1, 1, 1, 1], elem = (\<lambda>idx. Fin 2)\<rparr>
       \<lparr>shape = [1, 1], elem = (\<lambda>idx. Fin 1)\<rparr>
       \<lparr>shape = [1, 1], elem = (\<lambda>idx. Fin 1)\<rparr> \<and>
   availability_is_mask \<lparr>shape = [1, 1, 1], elem = (\<lambda>idx. Fin 0)\<rparr>
       \<lparr>shape = [1, 1, 1, 1], elem = (\<lambda>idx. Fin 2)\<rparr>
       \<lparr>shape = [1, 1], elem = (\<lambda>idx. Fin 1)\<rparr> 1 1 0 0 \<and>
   (\<exists>r. raw_error \<lparr>shape = [1, 1, 1], elem = (\<lambda>idx. Fin 0)\<rparr>
       \<lparr>shape = [1, 1, 1, 1], elem = (\<lambda>idx. Fin 2)\<rparr>
       \<lparr>shape = [1, 1], elem = (\<lambda>idx. Fin 1)\<rparr> = Inr r \<and> shape r = [1, 1] \<and>
     elem r [0, 0] = mode_error
       \<lparr>shape = [1, 1, 1], elem = (\<lambda>idx. Fin 0)\<rparr>
       \<lparr>shape = [1, 1, 1, 1], elem = (\<lambda>idx. Fin 2)\<rparr>
       \<lparr>shape = [1, 1], elem = (\<lambda>idx. Fin 1)\<rparr> 1 1 0 0 \<and>
     elem r [0, 0] = availability_weighted_error
       \<lparr>shape = [1, 1, 1], elem = (\<lambda>idx. Fin 0)\<rparr>
       \<lparr>shape = [1, 1, 1, 1], elem = (\<lambda>idx. Fin 2)\<rparr>
       \<lparr>shape = [1, 1], elem = (\<lambda>idx. Fin 1)\<rparr> 1 1 0 0) \<and>
   availability_weighted_error
       \<lparr>shape = [1, 1, 1], elem = (\<lambda>idx. Fin 0)\<rparr>
       \<lparr>shape = [1, 1, 1, 1], elem = (\<lambda>idx. Fin 2)\<rparr>
       \<lparr>shape = [1, 1], elem = (\<lambda>idx. Fin 1)\<rparr> 1 1 0 0 = Fin 4"
proof -
  have m: "availability_is_mask \<lparr>shape = [1, 1, 1], elem = (\<lambda>idx. Fin 0)\<rparr>
       \<lparr>shape = [1, 1, 1, 1], elem = (\<lambda>idx. Fin 2)\<rparr>
       \<lparr>shape = [1, 1], elem = (\<lambda>idx. Fin 1)\<rparr> 1 1 0 0"
    by (simp add: availability_is_mask_def)
  have "availability_weighted_error
       \<lparr>shape = [1, 1, 1], elem = (\<lambda>idx. Fin 0)\<rparr>
       \<lparr>shape = [1, 1, 1, 1], elem = (\<lambda>idx. Fin 2)\<rparr>
       \<lparr>shape = [1, 1], elem = (\<lambda>idx. Fin 1)\<rparr> 1 1 0 0 = Fin 4"
    by (simp add: availability_weighted_error_def vsub_def vpow2_def)
  with raw_error_squares_the_masked_difference[OF weights_example_valid, of 1 1 1 1]
    weights_example_valid m
  show ?thesis by auto
qed

section \<open>A single mode with every timestep available\<close>

lemma is_float32_FinD: "is_float32 (Fin x) \<Longrightarrow> nearest32 x = x \<and> \<bar>x\<bar> < 2 ^ 128"
  using round32_FinD[of x x] by simp

lemma vmul_half_finite:
  assumes "is_float32 (Fin e)"
  shows "\<exists>h. vmul (Fin (1 / 2)) (Fin e) = Fin h \<and> is_float32 (Fin h)"
proof -
  from is_float32_FinD[OF assms] have e: "nearest32 e = e" "\<bar>e\<bar> < 2 ^ 128" by simp_all
  have n: "nearest32 \<bar>e\<bar> = \<bar>e\<bar>" "nearest32 (- \<bar>e\<bar>) = - \<bar>e\<bar>"
    using e(1) by (simp_all add: abs_if nearest32_minus)
  have "round32 (1 / 2 * e) = Fin (nearest32 (1 / 2 * e))"
    by (rule round32_between(1)[OF n(2) n(1)]) (use e(2) in \<open>simp_all add: abs_if\<close>)
  moreover have "is_float32 (round32 (1 / 2 * e))" by simp
  ultimately show ?thesis by simp
qed

lemma vsub_self [simp]: "vsub (Fin s) (Fin s) = Fin 0"
  by (simp add: vsub_def)

lemma vexp_zero [simp]: "vexp (Fin 0) = Fin 1"
  by simp

lemma vsub_zero_left: "is_float32 (Fin s) \<Longrightarrow> vsub (Fin 0) (Fin s) = Fin (- s)"
proof -
  assume "is_float32 (Fin s)"
  then have "is_float32 (vneg (Fin s))" by (simp only: is_float32_vneg)
  then show ?thesis by (simp add: vsub_def)
qed

lemma neg_logsumexp_single:
  assumes "is_float32 (Fin s)"
  shows "neg_logsumexp [Fin s] = Fin (- s)"
  using vsub_zero_left[OF assms] by (simp add: neg_logsumexp_def)

lemma sample_loss_single:
  assumes c: "elem confidences [b, 0] = Fin 1"
    and e: "is_finite (mode_error gt pred avails T C b 0)"
  shows "sample_loss gt pred confidences avails 1 T C b =
    vmul (Fin (1 / 2)) (mode_error gt pred avails T C b 0)"
proof -
  from e obtain x where x: "mode_error gt pred avails T C b 0 = Fin x"
    by (cases "mode_error gt pred avails T C b 0") simp_all
  have "is_float32 (mode_error gt pred avails T C b 0)"
    unfolding mode_error_def by simp
  then have fx: "is_float32 (Fin x)" by (simp add: x)
  from vmul_half_finite[OF fx] obtain h where
    h: "vmul (Fin (1 / 2)) (Fin x) = Fin h" "is_float32 (Fin h)" by blast
  have fh: "is_float32 (Fin (- h))" using h(2) is_float32_vneg[of "Fin h"] by simp
  have s: "mode_score gt pred confidences avails T C b 0 = Fin (- h)"
    unfolding mode_score_def c x h(1) using vsub_zero_left[OF h(2)] by simp
  show ?thesis
    unfolding x h(1) by (simp add: sample_loss_def s neg_logsumexp_single[OF fh])
qed

lemma mode_error_all_available:
  assumes "\<And>t. t < T \<Longrightarrow> elem avails [b, t] = Fin 1"
  shows "mode_error gt pred avails T C b 0 = squared_error gt pred T C b"
  unfolding mode_error_def squared_error_def
  by (intro vsum_cong_upt) (simp add: assms vmul_one_right)

lemma batch_single_mode_all_available:
  assumes sh: "shape pred = [B, 1, T, C]" "shape gt = [B, T, C]" "shape confidences = [B, 1]"
      "shape avails = [B, T]"
    and fin: "all_finite pred" "all_finite gt"
    and conf: "\<And>b. b < B \<Longrightarrow> elem confidences [b, 0] = Fin 1"
    and av: "\<And>b t. b < B \<Longrightarrow> t < T \<Longrightarrow> elem avails [b, t] = Fin 1"
    and e: "\<And>b. b < B \<Longrightarrow> is_finite (squared_error gt pred T C b)"
  shows "pytorch_neg_multi_log_likelihood_batch gt pred confidences avails =
     Inr (mean_half_squared_error gt pred B T C)"
proof -
  have rows: "rows_sum_to_one confidences"
    by (simp add: rows_sum_to_one_def sh list_all_iff conf)
  have cf: "all_finite confidences"
    by (simp add: all_finite_iff2[OF sh(3)] conf)
  have af: "all_finite avails"
    by (simp add: all_finite_iff2[OF sh(4)] av)
  have "sample_loss gt pred confidences avails 1 T C b =
      vmul (Fin (1 / 2)) (squared_error gt pred T C b)" if b: "b < B" for b
  proof -
    have m: "mode_error gt pred avails T C b 0 = squared_error gt pred T C b"
      by (rule mode_error_all_available) (simp add: av b)
    show ?thesis
      using sample_loss_single[of confidences b gt pred avails T C] conf[OF b] e[OF b]
      by (simp add: m)
  qed
  then have "map (sample_loss gt pred confidences avails 1 T C) [0..<B] =
      map (\<lambda>b. vmul (Fin (1 / 2)) (squared_error gt pred T C b)) [0..<B]"
    by (intro map_cong_upt)
  then have maps: "map (sample_loss gt pred confidences avails 1 T C) [0..<B] =
      map (\<lambda>b. vmul (Fin (1 / 2)) (squared_error gt pred T C b)) [0..<B]" .
  have "nll_reduce gt pred confidences avails =
      Inr (vmean (map (sample_loss gt pred confidences avails 1 T C) [0..<B]))"
    by (rule nll_reduce_closed[OF sh]) simp
  then have "nll_reduce gt pred confidences avails = Inr (mean_half_squared_error gt pred B T C)"
    unfolding mean_half_squared_error_def maps .
  then show ?thesis
    unfolding batch_assertions[OF sh(1)] using sh rows cf af fin by simp
qed

lemma round32_overflow_64:
  assumes "x = 2 ^ 64"
  shows "round32 (- x) = Fin (- x)" "round32 (x * x) = PInf"
proof -
  have p: "(2::real) powi 64 = x" by (simp add: assms power_int_numeral)
  have "nearest32 (- x) = - x"
    using nearest32_minus_powi[of 64] unfolding p by simp
  moreover have "\<bar>- x\<bar> < 2 ^ 128" by (simp add: assms)
  ultimately show "round32 (- x) = Fin (- x)" by (rule round32_fix)
  have e: "x * x = 2 powi 128" by (simp add: assms power_int_numeral)
  have n: "nearest32 (2 powi 128) = 2 powi 128"
    by (rule nearest32_powi) simp
  show "round32 (x * x) = PInf"
    unfolding e round32_def n Let_def by (simp add: power_int_numeral)
qed

text \<open>
  With a ground truth of 0 and a prediction of \<open>2\<^sup>6\<^sup>4\<close> the squared error overflows to
  infinity: the log-score of the mode is minus infinity, its difference with the maximum
  is NaN, and the loss is NaN, whereas half the mean of the sum of the squared errors is
  infinity.
\<close>
theorem single_mode_overflow_gives_nan:
  "pytorch_neg_multi_log_likelihood_batch
     \<lparr>shape = [1, 1, 1], elem = (\<lambda>idx. Fin 0)\<rparr>
     \<lparr>shape = [1, 1, 1, 1], elem = (\<lambda>idx. Fin (2 ^ 64))\<rparr>
     \<lparr>shape = [1, 1], elem = (\<lambda>idx. Fin 1)\<rparr>
     \<lparr>shape = [1, 1], elem = (\<lambda>idx. Fin 1)\<rparr> = Inr NaN \<and>
   half_mean_squared_error
     \<lparr>shape = [1, 1, 1], elem = (\<lambda>idx. Fin 0)\<rparr>
     \<lparr>shape = [1, 1, 1, 1], elem = (\<lambda>idx. Fin (2 ^ 64))\<rparr> 1 1 1 = PInf"
proof -
  define x :: real where "x = 2 ^ 64"
  define g where "g = \<lparr>shape = [1, 1, 1], elem = (\<lambda>idx. Fin 0)\<rparr>"
  define p where "p = \<lparr>shape = [1, 1, 1, 1], elem = (\<lambda>idx. Fin x)\<rparr>"
  define c where "c = \<lparr>shape = [1, 1], elem = (\<lambda>idx. Fin 1)\<rparr>"
  define a where "a = \<lparr>shape = [1, 1], elem = (\<lambda>idx. Fin 1)\<rparr>"
  have sh: "shape p = [1, 1, 1, 1]" "shape g = [1, 1, 1]" "shape c = [1, 1]" "shape a = [1, 1]"
    by (simp_all add: g_def p_def c_def a_def)
  have v: "inputs_valid g p c a"
    unfolding inputs_valid_def
    by (simp add: shapes_ok_def rows_sum_to_one_def sh all_finite_iff4[OF sh(1)]
        all_finite_iff3[OF sh(2)] all_finite_iff2[OF sh(3)] all_finite_iff2[OF sh(4)])
       (simp add: g_def p_def c_def a_def)
  have sq: "vpow2 (vsub (Fin 0) (Fin x)) = PInf"
    by (simp add: vsub_def vpow2_def round32_overflow_64[OF x_def])
  have e: "mode_error g p a (Suc 0) (Suc 0) 0 0 = PInf"
    using sq by (simp add: mode_error_def g_def p_def a_def vmul_one_right)
  have "pytorch_neg_multi_log_likelihood_batch g p c a =
      Inr (vmean (map (sample_loss g p c a 1 1 1) [0..<1]))"
    unfolding batch_valid[OF v] by (rule nll_reduce_closed[OF sh]) simp
  also have "\<dots> = Inr NaN"
    by (simp add: sample_loss_def mode_score_def e neg_logsumexp_def vsub_def vmean_def c_def
        inf_of_sign_def)
  finally have l: "pytorch_neg_multi_log_likelihood_batch g p c a = Inr NaN" .
  have "half_mean_squared_error g p 1 1 1 = PInf"
    using sq by (simp add: half_mean_squared_error_def squared_error_def vmean_def g_def p_def
        inf_of_sign_def)
  with l show ?thesis
    unfolding g_def p_def c_def a_def x_def by blast
qed

text \<open>
  Claim C2, amended. With a single mode (\<open>M = 1\<close>) of confidence 1 and every availability
  equal to 1, on finite \<open>gt\<close> and \<open>pred\<close> of the required shapes, and when no sample's sum
  over timesteps and coordinates of the squared errors \<open>(gt - pred)\<^sup>2\<close> overflows, the
  batch loss is the mean over the batch of 0.5 times that sum, every operation in
  float32. For an empty batch both sides are NaN.
\<close>
theorem single_mode_all_available_loss:
  assumes "shape pred = [B, 1, T, C]" "shape gt = [B, T, C]" "shape confidences = [B, 1]"
      "shape avails = [B, T]"
    and "all_finite pred" "all_finite gt"
    and "\<And>b. b < B \<Longrightarrow> elem confidences [b, 0] = Fin 1"
    and "\<And>b t. b < B \<Longrightarrow> t < T \<Longrightarrow> elem avails [b, t] = Fin 1"
    and "\<And>b. b < B \<Longrightarrow> is_finite (squared_error gt pred T C b)"
  shows "pytorch_neg_multi_log_likelihood_batch gt pred confidences avails =
     Inr (mean_half_squared_error gt pred B T C)"
  using assms by (rule batch_single_mode_all_available)

theorem single_mode_all_available_loss_witness:
  "pytorch_neg_multi_log_likelihood_batch
     \<lparr>shape = [1, 1, 2], elem = (\<lambda>idx. Fin 0)\<rparr>
     \<lparr>shape = [1, 1, 1, 2], elem = (\<lambda>idx. Fin 2)\<rparr>
     \<lparr>shape = [1, 1], elem = (\<lambda>idx. Fin 1)\<rparr>
     \<lparr>shape = [1, 1], elem = (\<lambda>idx. Fin 1)\<rparr> =
   Inr (mean_half_squared_error
     \<lparr>shape = [1, 1, 2], elem = (\<lambda>idx. Fin 0)\<rparr>
     \<lparr>shape = [1, 1, 1, 2], elem = (\<lambda>idx. Fin 2)\<rparr> 1 1 2) \<and>
   mean_half_squared_error
     \<lparr>shape = [1, 1, 2], elem = (\<lambda>idx. Fin 0)\<rparr>
     \<lparr>shape = [1, 1, 1, 2], elem = (\<lambda>idx. Fin 2)\<rparr> 1 1 2 = Fin 4"
proof -
  define g where "g = \<lparr>shape = [1, 1, 2], elem = (\<lambda>idx. Fin 0)\<rparr>"
  define p where "p = \<lparr>shape = [1, 1, 1, 2], elem = (\<lambda>idx. Fin 2)\<rparr>"
  define c where "c = \<lparr>shape = [1, 1], elem = (\<lambda>idx. Fin 1)\<rparr>"
  define a where "a = \<lparr>shape = [1, 1], elem = (\<lambda>idx. Fin 1)\<rparr>"
  have sh: "shape p = [1, 1, 1, 2]" "shape g = [1, 1, 2]" "shape c = [1, 1]" "shape a = [1, 1]"
    by (simp_all add: g_def p_def c_def a_def)
  have sq: "squared_error g p (Suc 0) 2 0 = Fin 8"
    by (simp add: squared_error_def vsub_def vpow2_def upt_2 g_def p_def)
  have "pytorch_neg_multi_log_likelihood_batch g p c a = Inr (mean_half_squared_error g p 1 1 2)"
  proof (rule single_mode_all_available_loss[OF sh])
    show "all_finite p" by (simp add: all_finite_iff4[OF sh(1)]) (simp add: p_def)
    show "all_finite g" by (simp add: all_finite_iff3[OF sh(2)]) (simp add: g_def)
    show "elem c [b, 0] = Fin 1" for b by (simp add: c_def)
    show "elem a [b, t] = Fin 1" for b t by (simp add: a_def)
    show "is_finite (squared_error g p 1 2 b)" if "b < 1" for b
      using that sq by simp
  qed
  moreover have "mean_half_squared_error g p 1 1 2 = Fin 4"
    by (simp add: mean_half_squared_error_def vmean_def sq)
  ultimately show ?thesis
    unfolding g_def p_def c_def a_def by blast
qed

section \<open>Identical modes\<close>














section \<open>Sums of squares\<close>

lemma not_negative_round32: "0 \<le> x \<Longrightarrow> not_negative (round32 x)"
  using round32_cases[of x] nearest32_nonneg[of x] by auto

lemma not_negative_vadd: "not_negative a \<Longrightarrow> not_negative b \<Longrightarrow> not_negative (vadd a b)"
  by (cases a; cases b) (simp_all add: not_negative_round32)

lemma not_negative_vpow2: "not_negative (vpow2 a)"
  by (cases a) (simp_all add: vpow2_def not_negative_round32 inf_of_sign_def)

lemma not_negative_vsum: "(\<And>x. x \<in> set xs \<Longrightarrow> not_negative x) \<Longrightarrow> not_negative (vsum xs)"
proof (induction xs rule: rev_induct)
  case Nil
  show ?case by simp
next
  case (snoc x xs)
  then show ?case by (simp add: not_negative_vadd)
qed

lemma not_negative_mode_error: "not_negative (mode_error gt pred avails T C b m)"
  unfolding mode_error_def
  by (intro not_negative_vsum) (auto intro!: not_negative_vsum simp add: not_negative_vpow2)

section \<open>A score of minus infinity\<close>

lemma vmax_NInf_right [simp]: "vmax v NInf = v"
  by (cases v) simp_all

lemma vmax_NInf_left [simp]: "vmax NInf v = v"
  by (cases v) simp_all

lemma vmax_list_Cons: "vmax_list (x # xs) = vmax x (vmax_list xs)"
  by (cases xs) simp_all

lemma vmax_NInf_iff: "vmax a b = NInf \<longleftrightarrow> a = NInf \<and> b = NInf"
  by (cases a; cases b) simp_all

lemma vmax_list_NInf: "vmax_list xs = NInf \<Longrightarrow> x \<in> set xs \<Longrightarrow> x = NInf"
proof (induction xs)
  case Nil
  then show ?case by simp
next
  case (Cons y ys)
  from Cons.prems(1) have "y = NInf" "vmax_list ys = NInf"
    by (simp_all add: vmax_list_Cons vmax_NInf_iff)
  with Cons show ?case by auto
qed

lemma vmax_list_filter:
  assumes "\<And>k. k \<in> set ks \<Longrightarrow> \<not> P k \<Longrightarrow> f k = NInf"
  shows "vmax_list (map f ks) = vmax_list (map f (filter P ks))"
  using assms
proof (induction ks)
  case Nil
  show ?case by simp
next
  case (Cons k ks)
  then have IH: "vmax_list (map f ks) = vmax_list (map f (filter P ks))" by simp
  show ?case
  proof (cases "P k")
    case True
    then show ?thesis by (simp add: vmax_list_Cons IH del: vmax_list.simps)
  next
    case False
    with Cons.prems have "f k = NInf" by simp
    with False show ?thesis by (simp add: vmax_list_Cons IH del: vmax_list.simps)
  qed
qed

lemma vsum_filter_zero:
  assumes "\<And>k. k \<in> set ks \<Longrightarrow> \<not> P k \<Longrightarrow> g k = Fin 0"
  shows "vsum (map g ks) = vsum (map g (filter P ks))"
  using assms
proof (induction ks rule: rev_induct)
  case Nil
  show ?case by simp
next
  case (snoc k ks)
  then have IH: "vsum (map g ks) = vsum (map g (filter P ks))" by simp
  show ?case
  proof (cases "P k")
    case True
    then show ?thesis by (simp add: IH)
  next
    case False
    with snoc.prems have "g k = Fin 0" by simp
    with False show ?thesis by (simp add: IH vadd_zero_right)
  qed
qed

lemma neg_logsumexp_filter:
  assumes kept: "\<exists>k\<in>set ks. P k"
    and dropped: "\<And>k. k \<in> set ks \<Longrightarrow> \<not> P k \<Longrightarrow> f k = NInf"
  shows "neg_logsumexp (map f ks) = neg_logsumexp (map f (filter P ks))"
proof -
  define mx where "mx = vmax_list (map f ks)"
  have mx: "vmax_list (map f (filter P ks)) = mx"
    unfolding mx_def by (rule vmax_list_filter[symmetric]) (rule dropped)
  from kept have ne: "ks \<noteq> []" "filter P ks \<noteq> []"
    by (auto simp add: filter_empty_conv)
  have "vsum (map (\<lambda>k. vexp (vsub (f k) mx)) ks) =
      vsum (map (\<lambda>k. vexp (vsub (f k) mx)) (filter P ks))"
  proof (cases "mx = NInf \<or> mx = NaN")
    case True
    have "vexp (vsub (f k) mx) = NaN" if "k \<in> set ks" for k
    proof (cases "mx = NaN")
      case True
      then show ?thesis by (cases "f k") (simp_all add: vsub_def)
    next
      case False
      with \<open>mx = NInf \<or> mx = NaN\<close> have m: "mx = NInf" by simp
      then have "f k = NInf"
        using vmax_list_NInf[of "map f ks" "f k"] that by (simp add: mx_def)
      with m show ?thesis by (simp add: vsub_def)
    qed
    then have n: "\<And>k. k \<in> set ks \<Longrightarrow> vexp (vsub (f k) mx) = NaN" .
    have "vsum (map (\<lambda>k. vexp (vsub (f k) mx)) ks) = NaN"
      by (rule vsum_map_NaN[OF ne(1)]) (rule n)
    moreover have "vsum (map (\<lambda>k. vexp (vsub (f k) mx)) (filter P ks)) = NaN"
      by (rule vsum_map_NaN[OF ne(2)]) (simp add: n)
    ultimately show ?thesis by simp
  next
    case False
    have "vexp (vsub (f k) mx) = Fin 0" if "k \<in> set ks" "\<not> P k" for k
      using dropped[OF that] False by (cases mx) (simp_all add: vsub_def)
    then show ?thesis by (rule vsum_filter_zero)
  qed
  then show ?thesis
    unfolding neg_logsumexp_def mx mx_def[symmetric] by (simp add: comp_def)
qed

section \<open>The tolerance of the row sums\<close>

lemma round32_powi_between:
  assumes "2 powi i \<le> x" "x \<le> 2 powi j" "- 149 \<le> i" "j \<le> 127"
  obtains y where "round32 x = Fin y" "2 powi i \<le> y" "y \<le> 2 powi j"
proof -
  have "(2::real) powi i \<le> 2 powi j" using assms(1,2) by linarith
  then have ij: "i \<le> j" using two_powi_less[of j i] by (cases "i \<le> j") simp_all
  have n: "nearest32 (2 powi i) = 2 powi i" "nearest32 (2 powi j) = 2 powi j"
    using assms(3,4) ij by (simp_all add: nearest32_powi)
  have "(2::real) powi j < 2 powi 128" using assms(4) by (intro two_powi_less) simp
  then have u: "(2::real) powi j < 2 ^ 128" by (simp add: power_int_numeral)
  have "0 < (2::real) powi i" by simp
  then have l: "- (2 ^ 128) < (2::real) powi i" by (rule less_trans[rotated]) simp
  from round32_between[OF n assms(1,2) l u] show ?thesis by (intro that) simp_all
qed

lemma round32_zero_powi_between:
  assumes "0 \<le> x" "x \<le> 2 powi j" "- 149 \<le> j" "j \<le> 127"
  obtains y where "round32 x = Fin y" "0 \<le> y" "y \<le> 2 powi j"
proof -
  have n: "nearest32 0 = 0" "nearest32 (2 powi j) = 2 powi j"
    using assms(3) by (simp_all add: nearest32_powi)
  have "(2::real) powi j < 2 powi 128" using assms(4) by (intro two_powi_less) simp
  then have u: "(2::real) powi j < 2 ^ 128" by (simp add: power_int_numeral)
  from round32_between[OF n assms(1,2) _ u] show ?thesis by (intro that) simp_all
qed

lemma allowed_error_one:
  obtains y where "vadd atol32 (vabs (vmul rtol32 (Fin 1))) = Fin y"
    "2 powi (- 17) \<le> y" "y \<le> 2 powi (- 15)"
proof -
  have "2 powi (- 17) \<le> (1 / 10 ^ 5 :: real)" "(1 / 10 ^ 5 :: real) \<le> 2 powi (- 16)"
    by (simp_all add: power_int_minus)
  then obtain r where r: "rtol32 = Fin r" "2 powi (- 17) \<le> r" "r \<le> 2 powi (- 16)"
    unfolding rtol32_def by (rule round32_powi_between) simp_all
  have "0 \<le> (1 / 10 ^ 8 :: real)" "(1 / 10 ^ 8 :: real) \<le> 2 powi (- 26)"
    by (simp_all add: power_int_minus)
  then obtain t where t: "atol32 = Fin t" "0 \<le> t" "t \<le> 2 powi (- 26)"
    unfolding atol32_def by (rule round32_zero_powi_between) simp_all
  have "is_float32 rtol32" by (simp add: rtol32_def)
  then have m: "vmul rtol32 (Fin 1) = Fin r" unfolding r(1)[symmetric] by (rule vmul_one_right)
  have "0 < (2::real) powi (- 17)" by simp
  with r(2) have r0: "0 \<le> r" by linarith
  have "(2::real) powi (- 26) + 2 powi (- 16) \<le> 2 powi (- 15)"
    by (simp add: power_int_minus)
  with r t have b: "2 powi (- 17) \<le> t + r" "t + r \<le> 2 powi (- 15)" by linarith+
  from b obtain y where y: "round32 (t + r) = Fin y" "2 powi (- 17) \<le> y" "y \<le> 2 powi (- 15)"
    by (rule round32_powi_between) simp_all
  have "vadd atol32 (vabs (vmul rtol32 (Fin 1))) = Fin y"
    unfolding m t(1) using r0 y(1) by simp
  from that[OF this y(2,3)] show ?thesis .
qed

lemma not_isclose_zero_one: "\<not> isclose (Fin 0) (Fin 1)"
proof -
  obtain y where y: "vadd atol32 (vabs (vmul rtol32 (Fin 1))) = Fin y" "y \<le> 2 powi (- 15)"
    using allowed_error_one by blast
  have "(2::real) powi (- 15) < 1" by (simp add: power_int_minus)
  with y(2) have "y < 1" by linarith
  then show ?thesis
    unfolding isclose_def Let_def y(1) by (simp add: vsub_def)
qed

lemma row_has_nonzero_confidence:
  assumes r: "rows_sum_to_one confidences" and sh: "shape confidences = [B, M]" and b: "b < B"
  shows "\<exists>m<M. elem confidences [b, m] \<noteq> Fin 0"
proof (rule ccontr)
  assume "\<not> (\<exists>m<M. elem confidences [b, m] \<noteq> Fin 0)"
  then have "vsum (map (\<lambda>m. elem confidences [b, m]) [0..<M]) = Fin 0"
    by (intro vsum_map_zeros) simp
  moreover from r b have "isclose (vsum (map (\<lambda>m. elem confidences [b, m]) [0..<M])) (Fin 1)"
    by (simp add: rows_sum_to_one_def sh list_all_iff)
  ultimately show False using not_isclose_zero_one by simp
qed

section \<open>Modes of confidence zero\<close>

lemma zero_confidence_score:
  assumes c: "elem confidences [b, m] = Fin 0"
    and e: "mode_error gt pred avails T C b m \<noteq> NaN"
  shows "mode_score gt pred confidences avails T C b m = NInf"
proof (cases "mode_error gt pred avails T C b m")
  case (Fin x)
  have "is_float32 (mode_error gt pred avails T C b m)" unfolding mode_error_def by simp
  then have "is_float32 (Fin x)" by (simp add: Fin)
  from vmul_half_finite[OF this] obtain h where "vmul (Fin (1 / 2)) (Fin x) = Fin h" by blast
  then show ?thesis by (simp add: mode_score_def c Fin vsub_def)
next
  case PInf
  then show ?thesis by (simp add: mode_score_def c vsub_def inf_of_sign_def)
next
  case NInf
  with not_negative_mode_error[of gt pred avails T C b m] show ?thesis by simp
next
  case NaN
  with e show ?thesis by simp
qed

lemma batch_nonzero_modes:
  assumes v: "inputs_valid gt pred confidences avails" and sh: "shape pred = [B, M, T, C]"
    and M: "0 < M"
    and e: "\<And>b m. b < B \<Longrightarrow> m < M \<Longrightarrow> elem confidences [b, m] = Fin 0 \<Longrightarrow>
      mode_error gt pred avails T C b m \<noteq> NaN"
  shows "pytorch_neg_multi_log_likelihood_batch gt pred confidences avails =
    Inr (loss_over_nonzero_modes gt pred confidences avails B M T C)"
proof -
  from v have "shapes_ok gt pred confidences avails" and rows: "rows_sum_to_one confidences"
    by (simp_all add: inputs_valid_def)
  with sh have shs: "shape gt = [B, T, C]" "shape confidences = [B, M]" "shape avails = [B, T]"
    by (simp_all add: shapes_ok_def)
  have "sample_loss gt pred confidences avails M T C b =
      neg_logsumexp (map (mode_score gt pred confidences avails T C b)
        (nonzero_modes confidences M b))" if b: "b < B" for b
    unfolding sample_loss_def nonzero_modes_def
  proof (rule neg_logsumexp_filter)
    from row_has_nonzero_confidence[OF rows shs(2) b]
    show "\<exists>k\<in>set [0..<M]. elem confidences [b, k] \<noteq> Fin 0" by auto
  next
    fix k assume "k \<in> set [0..<M]" "\<not> elem confidences [b, k] \<noteq> Fin 0"
    then have "k < M" "elem confidences [b, k] = Fin 0" by simp_all
    then show "mode_score gt pred confidences avails T C b k = NInf"
      by (intro zero_confidence_score e b)
  qed
  then have maps: "map (sample_loss gt pred confidences avails M T C) [0..<B] =
      map (\<lambda>b. neg_logsumexp (map (mode_score gt pred confidences avails T C b)
        (nonzero_modes confidences M b))) [0..<B]"
    by (intro map_cong_upt)
  have "nll_reduce gt pred confidences avails =
      Inr (loss_over_nonzero_modes gt pred confidences avails B M T C)"
    unfolding nll_reduce_closed[OF sh shs M] loss_over_nonzero_modes_def maps by (rule refl)
  with v show ?thesis by (simp add: batch_valid)
qed

text \<open>
  A mode of confidence 0 whose difference \<open>gt - pred\<close> overflows at a timestep of
  availability 0 has the raw error NaN, and its log-score is NaN instead of minus
  infinity: the loss is NaN, whereas the loss over the other mode, of confidence 1, is 0.
\<close>
theorem zero_confidence_mode_with_overflow:
  "inputs_valid
     \<lparr>shape = [1, 1, 1], elem = (\<lambda>idx. Fin (- (2 ^ 127)))\<rparr>
     \<lparr>shape = [1, 2, 1, 1],
      elem = (\<lambda>idx. if idx = [0, 1, 0, 0] then Fin (2 ^ 127) else Fin (- (2 ^ 127)))\<rparr>
     \<lparr>shape = [1, 2], elem = (\<lambda>idx. if idx = [0, 1] then Fin 0 else Fin 1)\<rparr>
     \<lparr>shape = [1, 1], elem = (\<lambda>idx. Fin 0)\<rparr> \<and>
   pytorch_neg_multi_log_likelihood_batch
     \<lparr>shape = [1, 1, 1], elem = (\<lambda>idx. Fin (- (2 ^ 127)))\<rparr>
     \<lparr>shape = [1, 2, 1, 1],
      elem = (\<lambda>idx. if idx = [0, 1, 0, 0] then Fin (2 ^ 127) else Fin (- (2 ^ 127)))\<rparr>
     \<lparr>shape = [1, 2], elem = (\<lambda>idx. if idx = [0, 1] then Fin 0 else Fin 1)\<rparr>
     \<lparr>shape = [1, 1], elem = (\<lambda>idx. Fin 0)\<rparr> = Inr NaN \<and>
   loss_over_nonzero_modes
     \<lparr>shape = [1, 1, 1], elem = (\<lambda>idx. Fin (- (2 ^ 127)))\<rparr>
     \<lparr>shape = [1, 2, 1, 1],
      elem = (\<lambda>idx. if idx = [0, 1, 0, 0] then Fin (2 ^ 127) else Fin (- (2 ^ 127)))\<rparr>
     \<lparr>shape = [1, 2], elem = (\<lambda>idx. if idx = [0, 1] then Fin 0 else Fin 1)\<rparr>
     \<lparr>shape = [1, 1], elem = (\<lambda>idx. Fin 0)\<rparr> 1 2 1 1 = Fin 0"
proof -
  define x :: real where "x = 2 ^ 127"
  define g where "g = \<lparr>shape = [1, 1, 1], elem = (\<lambda>idx. Fin (- x))\<rparr>"
  define p where "p = \<lparr>shape = [1, 2, 1, 1],
      elem = (\<lambda>idx. if idx = [0, 1, 0, 0] then Fin x else Fin (- x))\<rparr>"
  define c where "c = \<lparr>shape = [1, 2], elem = (\<lambda>idx. if idx = [0, 1] then Fin 0 else Fin 1)\<rparr>"
  define a where "a = \<lparr>shape = [1, 1], elem = (\<lambda>idx. Fin 0)\<rparr>"
  have sh: "shape p = [1, 2, 1, 1]" "shape g = [1, 1, 1]" "shape c = [1, 2]" "shape a = [1, 1]"
    by (simp_all add: g_def p_def c_def a_def)
  have v: "inputs_valid g p c a"
    unfolding inputs_valid_def
    by (simp add: shapes_ok_def rows_sum_to_one_def sh all_finite_iff4[OF sh(1)]
        all_finite_iff3[OF sh(2)] all_finite_iff2[OF sh(3)] all_finite_iff2[OF sh(4)] upt_2)
       (simp add: g_def p_def c_def a_def)
  have e0: "mode_error g p a (Suc 0) (Suc 0) 0 0 = Fin 0"
    by (rule mode_error_zero) (simp add: g_def p_def a_def)
  have e1: "mode_error g p a (Suc 0) (Suc 0) 0 (Suc 0) = NaN"
    by (simp add: mode_error_def g_def p_def a_def vsub_overflow[OF x_def] inf_of_sign_def vpow2_def)
  have s0: "mode_score g p c a (Suc 0) (Suc 0) 0 0 = Fin 0"
    by (simp add: mode_score_def e0 c_def)
  have s1: "mode_score g p c a (Suc 0) (Suc 0) 0 (Suc 0) = NaN"
    by (simp add: mode_score_def e1 c_def vsub_def)
  have "pytorch_neg_multi_log_likelihood_batch g p c a =
      Inr (vmean (map (sample_loss g p c a 2 1 1) [0..<1]))"
    unfolding batch_valid[OF v] by (rule nll_reduce_closed[OF sh]) simp
  also have "\<dots> = Inr NaN"
    by (simp add: sample_loss_def upt_2 s0 s1 neg_logsumexp_def vsub_def vmean_def)
  finally have l: "pytorch_neg_multi_log_likelihood_batch g p c a = Inr NaN" .
  have "nonzero_modes c 2 0 = [0]"
    by (simp add: nonzero_modes_def upt_2 c_def)
  then have "loss_over_nonzero_modes g p c a 1 2 1 1 = Fin 0"
    by (simp add: loss_over_nonzero_modes_def s0)
  with v l show ?thesis
    unfolding g_def p_def c_def a_def x_def by blast
qed

text \<open>
  Claim C7, amended. For a valid input with at least one mode, where the raw error of every
  mode of confidence 0 is not NaN (no difference \<open>gt - pred\<close> of such a mode overflows at
  a timestep of availability 0), the log-score of a mode of confidence 0 is minus
  infinity and the mode is dropped: the loss is the loss computed, sample by sample, over
  the modes of non-zero confidence only. Every sample of a valid input has such a mode,
  since its confidences sum to 1 within the tolerance.
\<close>
theorem zero_confidence_modes_are_dropped:
  assumes "inputs_valid gt pred confidences avails" and "shape pred = [B, M, T, C]"
    and "0 < M"
    and "\<And>b m. b < B \<Longrightarrow> m < M \<Longrightarrow> elem confidences [b, m] = Fin 0 \<Longrightarrow>
      mode_error gt pred avails T C b m \<noteq> NaN"
  shows "pytorch_neg_multi_log_likelihood_batch gt pred confidences avails =
    Inr (loss_over_nonzero_modes gt pred confidences avails B M T C)"
  using assms by (rule batch_nonzero_modes)

theorem zero_confidence_modes_are_dropped_witness:
  "inputs_valid
     \<lparr>shape = [1, 1, 1], elem = (\<lambda>idx. Fin 0)\<rparr>
     \<lparr>shape = [1, 2, 1, 1], elem = (\<lambda>idx. Fin 0)\<rparr>
     \<lparr>shape = [1, 2], elem = (\<lambda>idx. if idx = [0, 1] then Fin 0 else Fin 1)\<rparr>
     \<lparr>shape = [1, 1], elem = (\<lambda>idx. Fin 1)\<rparr> \<and>
   elem \<lparr>shape = [1, 2], elem = (\<lambda>idx. if idx = [0, 1] then Fin 0 else Fin 1)\<rparr> [0, 1] = Fin 0 \<and>
   mode_error
     \<lparr>shape = [1, 1, 1], elem = (\<lambda>idx. Fin 0)\<rparr>
     \<lparr>shape = [1, 2, 1, 1], elem = (\<lambda>idx. Fin 0)\<rparr>
     \<lparr>shape = [1, 1], elem = (\<lambda>idx. Fin 1)\<rparr> 1 1 0 1 \<noteq> NaN \<and>
   pytorch_neg_multi_log_likelihood_batch
     \<lparr>shape = [1, 1, 1], elem = (\<lambda>idx. Fin 0)\<rparr>
     \<lparr>shape = [1, 2, 1, 1], elem = (\<lambda>idx. Fin 0)\<rparr>
     \<lparr>shape = [1, 2], elem = (\<lambda>idx. if idx = [0, 1] then Fin 0 else Fin 1)\<rparr>
     \<lparr>shape = [1, 1], elem = (\<lambda>idx. Fin 1)\<rparr> =
   Inr (loss_over_nonzero_modes
     \<lparr>shape = [1, 1, 1], elem = (\<lambda>idx. Fin 0)\<rparr>
     \<lparr>shape = [1, 2, 1, 1], elem = (\<lambda>idx. Fin 0)\<rparr>
     \<lparr>shape = [1, 2], elem = (\<lambda>idx. if idx = [0, 1] then Fin 0 else Fin 1)\<rparr>
     \<lparr>shape = [1, 1], elem = (\<lambda>idx. Fin 1)\<rparr> 1 2 1 1) \<and>
   loss_over_nonzero_modes
     \<lparr>shape = [1, 1, 1], elem = (\<lambda>idx. Fin 0)\<rparr>
     \<lparr>shape = [1, 2, 1, 1], elem = (\<lambda>idx. Fin 0)\<rparr>
     \<lparr>shape = [1, 2], elem = (\<lambda>idx. if idx = [0, 1] then Fin 0 else Fin 1)\<rparr>
     \<lparr>shape = [1, 1], elem = (\<lambda>idx. Fin 1)\<rparr> 1 2 1 1 = Fin 0"
proof -
  define g where "g = \<lparr>shape = [1, 1, 1], elem = (\<lambda>idx. Fin 0)\<rparr>"
  define p where "p = \<lparr>shape = [1, 2, 1, 1], elem = (\<lambda>idx. Fin 0)\<rparr>"
  define c where "c = \<lparr>shape = [1, 2], elem = (\<lambda>idx. if idx = [0, 1] then Fin 0 else Fin 1)\<rparr>"
  define a where "a = \<lparr>shape = [1, 1], elem = (\<lambda>idx. Fin 1)\<rparr>"
  have sh: "shape p = [1, 2, 1, 1]" "shape g = [1, 1, 1]" "shape c = [1, 2]" "shape a = [1, 1]"
    by (simp_all add: g_def p_def c_def a_def)
  have v: "inputs_valid g p c a"
    unfolding inputs_valid_def
    by (simp add: shapes_ok_def rows_sum_to_one_def sh all_finite_iff4[OF sh(1)]
        all_finite_iff3[OF sh(2)] all_finite_iff2[OF sh(3)] all_finite_iff2[OF sh(4)] upt_2)
       (simp add: g_def p_def c_def a_def)
  have e: "mode_error g p a (Suc 0) (Suc 0) b m = Fin 0" for b m
    by (rule mode_error_zero) (simp add: g_def p_def a_def)
  have s0: "mode_score g p c a (Suc 0) (Suc 0) 0 0 = Fin 0"
    using e[of 0 0] by (simp add: mode_score_def c_def)
  have l: "pytorch_neg_multi_log_likelihood_batch g p c a =
      Inr (loss_over_nonzero_modes g p c a 1 2 1 1)"
    by (rule zero_confidence_modes_are_dropped[OF v sh(1)]) (simp_all add: e)
  have "nonzero_modes c 2 0 = [0]"
    by (simp add: nonzero_modes_def upt_2 c_def)
  then have "loss_over_nonzero_modes g p c a 1 2 1 1 = Fin 0"
    by (simp add: loss_over_nonzero_modes_def s0)
  moreover have "elem c [0, 1] = Fin 0" by (simp add: c_def)
  moreover have "mode_error g p a 1 1 0 1 \<noteq> NaN" by (simp add: e)
  ultimately show ?thesis
    using v l unfolding g_def p_def c_def a_def by blast
qed

end
